(* ===== verification/Prelude.thy ===== *)
theory Prelude
  imports Main "HOL-Library.Char_ord" "HOL-Library.Multiset"
begin

text \<open>
  Shared vocabulary of the development: the names of the model's types, the
  exception datatype of the Python runtime as far as the program meets it, the
  collections of rules the component theories add to, and generic lemmas on lists
  that several components use (loops written as \<open>fold\<close> over a list, counts of
  list elements).

  Characters: a Python \<open>str\<close> is a sequence of Unicode code points. The model's
  \<open>char\<close> is read as a code point in the range U+0000 to U+00FF (Latin-1), so
  \<open>of_char c\<close> is the value of Python's \<open>ord(c)\<close>. Text the program produces
  (the report) is modelled as its UTF-8 encoding, which is what the chat layer
  transmits.
\<close>

type_synonym token = string
  \<comment> \<open>one cleaned line of the history file\<close>
type_synonym history = "string list"
  \<comment> \<open>the list \<open>history\<close> handed to the analysis functions\<close>

datatype py_exc = ValueError | FileNotFound | AttributeError
  \<comment> \<open>\<open>int()\<close> of a non-numeral; \<open>FileNotFoundError\<close> of \<open>os.remove\<close> on an absent path;
    an attribute read on \<open>None\<close>\<close>

named_theorems py_simps "evaluation rules of the Python primitives of the model"
named_theorems loop_simps "unfolding rules of the model's loops"

text \<open>
  A list comprehension \<open>[f(x) for x in xs]\<close> whose body may raise: the first
  exception, in list order, ends it.
\<close>

fun py_map_exc :: "('a \<Rightarrow> 'e + 'b) \<Rightarrow> 'a list \<Rightarrow> 'e + 'b list" where
  "py_map_exc f [] = Inr []"
| "py_map_exc f (x # xs) =
     (case f x of
        Inl e \<Rightarrow> Inl e
      | Inr y \<Rightarrow> (case py_map_exc f xs of Inl e \<Rightarrow> Inl e | Inr ys \<Rightarrow> Inr (y # ys)))"

lemma py_map_exc_map:
  "(\<And>x. f (g x) = Inr (h x)) \<Longrightarrow> py_map_exc f (map g xs) = Inr (map h xs)"
  by (induction xs) auto

subsection \<open>Generic lemmas on lists\<close>

lemma count_list_concat: "count_list (concat xss) x = (\<Sum>xs\<leftarrow>xss. count_list xs x)"
  by (induction xss) auto

lemma count_list_distinct: "distinct xs \<Longrightarrow> count_list xs x = (if x \<in> set xs then 1 else 0)"
  by (induction xs) auto

lemma count_list_filter_length:
  "count_list xs x = length (filter (\<lambda>y. y = x) xs)"
  by (induction xs) auto

lemma sum_list_indicator_length:
  "(\<Sum>t\<leftarrow>ts. if P t then 1 else (0::nat)) = length (filter P ts)"
  by (induction ts) auto

lemma in_set_map_filter: "y \<in> set (List.map_filter f xs) \<longleftrightarrow> (\<exists>x\<in>set xs. f x = Some y)"
  by (induction xs) (auto simp: split: option.splits)

lemma concat_map_if_filter:
  "concat (map (\<lambda>x. if P x then [f x] else []) xs) = map f (filter P xs)"
  by (induction xs) auto


lemma map_const_replicate: "\<forall>x\<in>set xs. f x = c \<Longrightarrow> map f xs = replicate (length xs) c"
  by (induction xs) auto

lemma fold_invariant:
  assumes "P s" and "\<And>x s. P s \<Longrightarrow> P (f x s)"
  shows "P (fold f xs s)"
  using assms(1) by (induction xs arbitrary: s) (simp_all add: assms(2))

end
