(* ===== verification/PyText.thy ===== *)
theory PyText
  imports Prelude
begin

text \<open>
  The Python string built-ins the program relies on, for code points U+0000 to
  U+00FF: \<open>str.isspace\<close> (through \<open>str.strip\<close>, src/main.py line 36),
  \<open>str.isdigit\<close> (line 71), \<open>int()\<close> of a one-character string (line 54) and of
  a command argument (line 171), \<open>str()\<close> of an integer (the f-strings of
  lines 88 to 107), and the UTF-8 encoding of a character echoed into the report.
  The lemmas give their behaviour on digits and the round trip \<open>int(str(i)) = i\<close>
  that the report's claims use.
\<close>

subsection \<open>Character classes\<close>

text \<open>
  \<open>str.isspace\<close> on Latin-1: TAB to CR (9 to 13), the separators 28 to 31,
  SPACE, NEL (133) and NO-BREAK SPACE (160). \<open>str.isdigit\<close>: the ASCII digits
  and the superscripts two, three and one (178, 179, 185), whose Unicode numeric
  type is Digit. \<open>int()\<close> accepts only decimal digits (Unicode category Nd),
  which in Latin-1 are the ASCII digits.
\<close>

definition py_isspace :: "char \<Rightarrow> bool" where
  "py_isspace c \<longleftrightarrow>
     (let n = (of_char c :: nat)
      in (9 \<le> n \<and> n \<le> 13) \<or> (28 \<le> n \<and> n \<le> 32) \<or> n = 133 \<or> n = 160)"

definition py_isdigit :: "char \<Rightarrow> bool" where
  "py_isdigit c \<longleftrightarrow>
     (let n = (of_char c :: nat) in (48 \<le> n \<and> n \<le> 57) \<or> n = 178 \<or> n = 179 \<or> n = 185)"

definition py_int_char :: "char \<Rightarrow> int option" where
  "py_int_char c =
     (let n = (of_char c :: nat) in if 48 \<le> n \<and> n \<le> 57 then Some (int n - 48) else None)"

definition digit_char :: "nat \<Rightarrow> char" where
  "digit_char d = char_of (48 + d)"

subsection \<open>\<open>str.strip()\<close>\<close>

definition py_strip :: "string \<Rightarrow> string" where
  "py_strip s = rev (dropWhile py_isspace (rev (dropWhile py_isspace s)))"

subsection \<open>\<open>str()\<close> of an integer\<close>

fun py_str_nat :: "nat \<Rightarrow> string" where
  "py_str_nat n = (if n < 10 then [digit_char n] else py_str_nat (n div 10) @ [digit_char (n mod 10)])"

declare py_str_nat.simps [simp del]

definition py_str_int :: "int \<Rightarrow> string" where
  "py_str_int i = (if i < 0 then CHR ''-'' # py_str_nat (nat (- i)) else py_str_nat (nat i))"

subsection \<open>\<open>int()\<close> of a string\<close>

text \<open>
  Base 10: surrounding whitespace is stripped, an optional sign follows, then a
  non-empty run of decimal digits in which single underscores may separate two
  digits. Anything else raises \<open>ValueError\<close>, here \<open>None\<close>.
\<close>

fun dec_digits :: "int \<Rightarrow> string \<Rightarrow> int option" where
  "dec_digits acc [] = Some acc"
| "dec_digits acc (c # cs) =
     (case py_int_char c of
        Some d \<Rightarrow> dec_digits (10 * acc + d) cs
      | None \<Rightarrow>
          (if c = CHR ''_'' then
             (case cs of
                [] \<Rightarrow> None
              | c' # cs' \<Rightarrow>
                  (case py_int_char c' of None \<Rightarrow> None | Some d \<Rightarrow> dec_digits (10 * acc + d) cs'))
           else None))"

definition py_int_unsigned :: "string \<Rightarrow> int option" where
  "py_int_unsigned t =
     (case t of
        [] \<Rightarrow> None
      | c # cs \<Rightarrow> (case py_int_char c of None \<Rightarrow> None | Some d \<Rightarrow> dec_digits d cs))"

definition py_int_of_string :: "string \<Rightarrow> int option" where
  "py_int_of_string s =
     (let t = py_strip s
      in case t of
           [] \<Rightarrow> None
         | c # cs \<Rightarrow>
             (if c = CHR ''-'' then map_option uminus (py_int_unsigned cs)
              else if c = CHR ''+'' then py_int_unsigned cs
              else py_int_unsigned t))"

subsection \<open>UTF-8 encoding of a Latin-1 character\<close>

definition utf8_char :: "char \<Rightarrow> string" where
  "utf8_char c =
     (let n = (of_char c :: nat)
      in if n < 128 then [c] else [char_of (192 + n div 64), char_of (128 + n mod 64)])"

subsection \<open>Properties of the primitives\<close>

lemma py_int_char_digit_char [py_simps]: "d < 10 \<Longrightarrow> py_int_char (digit_char d) = Some (int d)"
  by (simp add: py_int_char_def digit_char_def)

lemma py_int_char_SomeD:
  assumes "py_int_char c = Some d"
  shows "0 \<le> d \<and> d \<le> 9 \<and> c = digit_char (nat d)"
proof -
  let ?n = "of_char c :: nat"
  from assms have n: "48 \<le> ?n \<and> ?n \<le> 57" and d: "d = int ?n - 48"
    by (auto simp: py_int_char_def Let_def split: if_splits)
  then have "48 + nat d = ?n" by (simp add: nat_diff_distrib')
  with n d show ?thesis by (simp add: digit_char_def)
qed

lemma py_int_char_isdigit: "py_int_char c \<noteq> None \<Longrightarrow> py_isdigit c"
  by (auto simp: py_int_char_def py_isdigit_def Let_def split: if_splits)

lemma digit_char_props:
  assumes "d < 10"
  shows "\<not> py_isspace (digit_char d)" "digit_char d \<noteq> CHR ''-''" "digit_char d \<noteq> CHR ''+''"
    "digit_char d \<noteq> CHR ''_''"
  using assms by (auto simp: digit_char_def py_isspace_def dest: arg_cong [where f = "of_char :: char \<Rightarrow> nat"])

lemma py_str_nat_digits: "set (py_str_nat n) \<subseteq> digit_char ` {..<10}"
proof (induction n rule: py_str_nat.induct)
  case (1 n)
  then show ?case
    by (cases "n < 10") (auto simp: py_str_nat.simps [of n])
qed

lemma py_str_nat_not_Nil: "py_str_nat n \<noteq> []"
  by (simp add: py_str_nat.simps [of n])

lemma dec_digits_append:
  assumes "\<forall>c\<in>set xs. py_int_char c \<noteq> None"
  shows "dec_digits acc (xs @ ys) = (case dec_digits acc xs of None \<Rightarrow> None | Some v \<Rightarrow> dec_digits v ys)"
  using assms by (induction xs arbitrary: acc) auto

lemma dec_digits_some: "\<forall>c\<in>set xs. py_int_char c \<noteq> None \<Longrightarrow> dec_digits acc xs \<noteq> None"
  by (induction xs arbitrary: acc) auto

lemma py_int_unsigned_str_nat: "py_int_unsigned (py_str_nat n) = Some (int n)"
proof (induction n rule: py_str_nat.induct)
  case (1 n)
  show ?case
  proof (cases "n < 10")
    case True
    then show ?thesis by (simp add: py_str_nat.simps [of n] py_int_unsigned_def py_int_char_digit_char)
  next
    case False
    obtain c cs where cs: "py_str_nat (n div 10) = c # cs"
      using py_str_nat_not_Nil by (cases "py_str_nat (n div 10)") auto
    have digs: "\<forall>x\<in>set (c # cs). py_int_char x \<noteq> None"
      using py_str_nat_digits [of "n div 10"] cs by (auto simp: py_int_char_digit_char)
    from "1" False cs obtain d where d: "py_int_char c = Some d" and v: "dec_digits d cs = Some (int (n div 10))"
      by (auto simp: py_int_unsigned_def split: option.splits)
    have "dec_digits d (cs @ [digit_char (n mod 10)]) = Some (10 * int (n div 10) + int (n mod 10))"
      using digs v by (simp add: dec_digits_append py_int_char_digit_char)
    also have "10 * int (n div 10) + int (n mod 10) = int n"
      by (metis div_mult_mod_eq of_nat_add of_nat_mult of_nat_numeral mult.commute)
    finally show ?thesis
      using False cs d by (simp add: py_str_nat.simps [of n] py_int_unsigned_def)
  qed
qed

lemma py_strip_no_space:
  assumes "s = [] \<or> (\<not> py_isspace (hd s) \<and> \<not> py_isspace (last s))"
  shows "py_strip s = s"
proof -
  have "dropWhile py_isspace s = s"
    using assms by (auto simp: dropWhile_eq_self_iff)
  moreover have "dropWhile py_isspace (rev s) = rev s"
    using assms by (auto simp: dropWhile_eq_self_iff hd_rev)
  ultimately show ?thesis by (simp add: py_strip_def)
qed

lemma py_str_nat_ends:
  "\<not> py_isspace (hd (py_str_nat n)) \<and> \<not> py_isspace (last (py_str_nat n))
   \<and> hd (py_str_nat n) \<noteq> CHR ''-'' \<and> hd (py_str_nat n) \<noteq> CHR ''+''"
proof -
  have ne: "py_str_nat n \<noteq> []" by (rule py_str_nat_not_Nil)
  obtain d where d: "d < 10" "hd (py_str_nat n) = digit_char d"
    using py_str_nat_digits [of n] hd_in_set [OF ne] by blast
  obtain e where e: "e < 10" "last (py_str_nat n) = digit_char e"
    using py_str_nat_digits [of n] last_in_set [OF ne] by blast
  show ?thesis using d e digit_char_props by simp
qed

lemma py_strip_str_nat: "py_strip (py_str_nat n) = py_str_nat n"
  using py_str_nat_ends [of n] by (intro py_strip_no_space) simp

lemma py_int_of_string_str_int [simp]: "py_int_of_string (py_str_int i) = Some i"
proof (cases "i < 0")
  case True
  let ?s = "py_str_nat (nat (- i))"
  have "py_strip (CHR ''-'' # ?s) = CHR ''-'' # ?s"
    using py_str_nat_ends [of "nat (- i)"] py_str_nat_not_Nil [of "nat (- i)"]
    by (intro py_strip_no_space) (simp add: py_isspace_def)
  then have "py_int_of_string (py_str_int i) = map_option uminus (py_int_unsigned ?s)"
    using True by (simp add: py_int_of_string_def py_str_int_def)
  also have "\<dots> = Some i" using True by (simp add: py_int_unsigned_str_nat)
  finally show ?thesis .
next
  case False
  let ?s = "py_str_nat (nat i)"
  obtain c cs where cs: "?s = c # cs"
    using py_str_nat_not_Nil by (cases ?s) auto
  have "c \<noteq> CHR ''-'' \<and> c \<noteq> CHR ''+''"
    using py_str_nat_ends [of "nat i"] cs by simp
  then have "py_int_of_string (py_str_int i) = py_int_unsigned ?s"
    using False cs py_strip_str_nat [of "nat i"] by (simp add: py_int_of_string_def py_str_int_def)
  also have "\<dots> = Some i" using False by (simp add: py_int_unsigned_str_nat)
  finally show ?thesis .
qed


end
