(* ===== verification/Loader.thy ===== *)
theory Loader
  imports PyText
begin

text \<open>
  The history loader, \<open>baca_history_dari_file\<close> (src/main.py lines 32 to 43).
  The file system is a parameter \<open>fs\<close> giving, for a path, either the error that
  \<open>open\<close>/\<open>readlines\<close> raise or the decoded content of the file. \<open>readlines()\<close> in
  text mode translates the line ends \<open>\r\n\<close> and \<open>\r\<close> to \<open>\n\<close> (universal
  newlines) and splits after every \<open>\n\<close>, keeping it. The list comprehension of
  line 36 strips each line and keeps the non-blank ones; \<open>str(h)\<close> of line 37 is
  the identity on strings. Both \<open>except\<close> branches log a line and return \<open>[]\<close>;
  the model returns the log lines with the history.

  Shown here: every returned token is non-empty and already stripped, the tokens
  are the stripped non-blank lines in file order, a file of clean tokens written
  one per line loads back to exactly those tokens, and a missing or unreadable file
  gives the empty history and the log line of its \<open>except\<close> branch.
\<close>

datatype read_error = FileNotFoundError | OtherError string
  \<comment> \<open>\<open>except FileNotFoundError\<close>; \<open>except Exception as e\<close> with \<open>str(e)\<close>\<close>

type_synonym file_system = "string \<Rightarrow> read_error + string"

definition LF :: char where
  "LF = CHR 0x0A"

definition CR :: char where
  "CR = CHR 0x0D"

fun univ_newlines :: "string \<Rightarrow> string" where
  "univ_newlines [] = []"
| "univ_newlines [c] = [if c = CR then LF else c]"
| "univ_newlines (c # d # cs) =
     (if c = CR \<and> d = LF then LF # univ_newlines cs
      else (if c = CR then LF else c) # univ_newlines (d # cs))"

fun split_lines :: "string \<Rightarrow> string \<Rightarrow> string list" where
  "split_lines cur [] = (if cur = [] then [] else [cur])"
| "split_lines cur (c # cs) =
     (if c = LF then (cur @ [c]) # split_lines [] cs else split_lines (cur @ [c]) cs)"

definition py_readlines :: "string \<Rightarrow> string list" where
  "py_readlines content = split_lines [] (univ_newlines content)"

definition quote :: "string \<Rightarrow> string" where
  "quote s = [CHR 0x27] @ s @ [CHR 0x27]"

definition baca_history_dari_file :: "file_system \<Rightarrow> string \<Rightarrow> history \<times> string list" where
  "baca_history_dari_file fs nama_file =
     (case fs nama_file of
        Inl FileNotFoundError \<Rightarrow> ([], [''File '' @ quote nama_file @ '' tidak ditemukan.''])
      | Inl (OtherError e) \<Rightarrow> ([], [''Error saat membaca file: '' @ e])
      | Inr content \<Rightarrow>
          (let lines = [py_strip line. line \<leftarrow> py_readlines content, py_strip line \<noteq> []]
           in (map (\<lambda>h. h) lines, [])))"

subsection \<open>\<open>str.strip()\<close>\<close>

lemma last_dropWhile: "dropWhile P xs \<noteq> [] \<Longrightarrow> last (dropWhile P xs) = last xs"
  by (metis last_append takeWhile_dropWhile_id)

lemma py_strip_ends:
  assumes "py_strip s \<noteq> []"
  shows "\<not> py_isspace (hd (py_strip s)) \<and> \<not> py_isspace (last (py_strip s))"
proof -
  let ?t = "dropWhile py_isspace s"
  let ?w = "dropWhile py_isspace (rev ?t)"
  have ps: "py_strip s = rev ?w" by (simp add: py_strip_def)
  with assms have w: "?w \<noteq> []" by simp
  then have "rev ?t \<noteq> []" by (metis dropWhile.simps(1))
  then have t: "?t \<noteq> []" by simp
  have "last (py_strip s) = hd ?w" using ps w by (simp add: last_rev)
  moreover have "\<not> py_isspace (hd ?w)" using w by (rule hd_dropWhile)
  moreover have "hd (py_strip s) = hd ?t"
    using ps w t by (simp add: hd_rev last_dropWhile last_rev)
  moreover have "\<not> py_isspace (hd ?t)" using t by (rule hd_dropWhile)
  ultimately show ?thesis by simp
qed

lemma py_strip_idem: "py_strip (py_strip s) = py_strip s"
  using py_strip_ends [of s] by (intro py_strip_no_space) auto

subsection \<open>\<open>readlines()\<close>\<close>

lemma univ_newlines_no_CR: "CR \<notin> set s \<Longrightarrow> univ_newlines s = s"
  by (induction s rule: univ_newlines.induct) auto

lemma split_lines_line:
  "LF \<notin> set t \<Longrightarrow> split_lines cur (t @ LF # rest) = (cur @ t @ [LF]) # split_lines [] rest"
  by (induction t arbitrary: cur) auto

lemma split_lines_lines:
  "\<forall>t\<in>set ts. LF \<notin> set t \<Longrightarrow> split_lines [] (concat (map (\<lambda>t. t @ [LF]) ts)) = map (\<lambda>t. t @ [LF]) ts"
  by (induction ts) (simp_all add: split_lines_line)

lemma py_strip_snoc_space:
  assumes "t \<noteq> []" and "py_strip t = t" and "py_isspace c"
  shows "py_strip (t @ [c]) = t"
proof -
  have h: "\<not> py_isspace (hd t)" and l: "\<not> py_isspace (last t)" using py_strip_ends [of t] assms(1,2) by simp_all
  have "dropWhile py_isspace (t @ [c]) = t @ [c]" using h assms(1) by (cases t) simp_all
  moreover have "dropWhile py_isspace (rev t) = rev t" using l assms(1) by (cases "rev t") (simp_all add: last_rev [symmetric])
  ultimately show ?thesis using assms(3) by (simp add: py_strip_def)
qed

lemma baca_Inr:
  "fs nama_file = Inr content \<Longrightarrow>
   baca_history_dari_file fs nama_file = (filter (\<lambda>t. t \<noteq> []) (map py_strip (py_readlines content)), [])"
  by (simp add: baca_history_dari_file_def filter_map comp_def concat_map_if_filter)

lemma baca_Inl:
  "fs nama_file = Inl e \<Longrightarrow> fst (baca_history_dari_file fs nama_file) = [] \<and> length (snd (baca_history_dari_file fs nama_file)) = 1"
  by (cases e) (simp_all add: baca_history_dari_file_def)

lemma baca_Inl_log:
  "fs nama_file = Inl e \<Longrightarrow> \<exists>l. snd (baca_history_dari_file fs nama_file) = [l]"
  by (cases e) (simp_all add: baca_history_dari_file_def)

subsection \<open>Properties of the loader\<close>

text \<open>C17: every token the loader returns is non-empty and stripped: it neither
  starts nor ends with whitespace, and stripping it again changes nothing.\<close>

theorem baca_history_clean:
  "set (fst (baca_history_dari_file fs nama_file))
     \<subseteq> {t. t \<noteq> [] \<and> py_strip t = t \<and> \<not> py_isspace (hd t) \<and> \<not> py_isspace (last t)}"
proof (cases "fs nama_file")
  case (Inl e)
  then show ?thesis using baca_Inl [of fs nama_file e] by simp
next
  case (Inr content)
  then show ?thesis using py_strip_ends by (auto simp: baca_Inr py_strip_idem)
qed

text \<open>C18: on a readable file the history is the list of its lines, stripped, with
  the blank ones dropped, in file order, and nothing is logged.\<close>

theorem baca_history_lines:
  assumes "fs nama_file = Inr content"
  shows "fst (baca_history_dari_file fs nama_file) = filter (\<lambda>t. t \<noteq> []) (map py_strip (py_readlines content))
         \<and> snd (baca_history_dari_file fs nama_file) = []"
  using assms by (simp add: baca_Inr)

theorem baca_history_lines_witness:
  "(\<lambda>_. Inr (''1'' @ [CR, LF] @ ''  '' @ [LF] @ '' 23 '')) ''h.txt'' = (Inr (''1'' @ [CR, LF] @ ''  '' @ [LF] @ '' 23 '') :: read_error + string)
   \<and> fst (baca_history_dari_file (\<lambda>_. Inr (''1'' @ [CR, LF] @ ''  '' @ [LF] @ '' 23 '')) ''h.txt'') = [''1'', ''23'']"
proof -
  have "filter (\<lambda>t. t \<noteq> []) (map py_strip (py_readlines (''1'' @ [CR, LF] @ ''  '' @ [LF] @ '' 23 ''))) = [''1'', ''23'']"
    by code_simp
  then show ?thesis
    using baca_history_lines [of "\<lambda>_. Inr (''1'' @ [CR, LF] @ ''  '' @ [LF] @ '' 23 '')" "''h.txt''"] by simp
qed

text \<open>C20: a missing or unreadable file gives the empty history and exactly one
  log line, the message of the matching \<open>except\<close> branch; the error does not
  propagate.\<close>

theorem baca_history_error:
  assumes "fs nama_file = Inl e"
  shows "fst (baca_history_dari_file fs nama_file) = []
         \<and> snd (baca_history_dari_file fs nama_file) =
             [case e of FileNotFoundError \<Rightarrow> ''File '' @ quote nama_file @ '' tidak ditemukan.''
                      | OtherError msg \<Rightarrow> ''Error saat membaca file: '' @ msg]"
  using assms by (cases e) (simp_all add: baca_history_dari_file_def)

theorem baca_history_error_witness:
  "(\<lambda>_. Inl FileNotFoundError) ''h.txt'' = (Inl FileNotFoundError :: read_error + string)
   \<and> fst (baca_history_dari_file (\<lambda>_. Inl FileNotFoundError) ''h.txt'') = []"
  using baca_history_error [of "\<lambda>_. Inl FileNotFoundError" "''h.txt''" FileNotFoundError] by simp

text \<open>C19: writing clean tokens (non-empty, without surrounding whitespace, without
  line breaks) one per line and loading the file gives back exactly those tokens, in
  order, with nothing logged: the loader inverts the history file format.\<close>

theorem baca_history_roundtrip:
  assumes "\<forall>t\<in>set ts. t \<noteq> [] \<and> py_strip t = t \<and> LF \<notin> set t \<and> CR \<notin> set t"
    and "fs nama_file = Inr (concat (map (\<lambda>t. t @ [LF]) ts))"
  shows "baca_history_dari_file fs nama_file = (ts, [])"
proof -
  have "CR \<notin> set (concat (map (\<lambda>t. t @ [LF]) ts))" using assms(1) by (auto simp: CR_def LF_def)
  then have "py_readlines (concat (map (\<lambda>t. t @ [LF]) ts)) = map (\<lambda>t. t @ [LF]) ts"
    using assms(1) by (simp add: py_readlines_def univ_newlines_no_CR split_lines_lines)
  moreover have "map py_strip (map (\<lambda>t. t @ [LF]) ts) = ts"
    using assms(1) by (induction ts) (simp_all add: py_strip_snoc_space py_isspace_def LF_def)
  moreover have "filter (\<lambda>t. t \<noteq> []) ts = ts" using assms(1) by (simp add: filter_id_conv)
  ultimately show ?thesis using assms(2) by (simp add: baca_Inr)
qed

theorem baca_history_roundtrip_witness:
  "baca_history_dari_file (\<lambda>_. Inr (''12'' @ [LF] @ ''345'' @ [LF])) ''h.txt'' = ([''12'', ''345''], [])"
proof -
  have c: "\<forall>t\<in>set [''12'', ''345'']. t \<noteq> [] \<and> py_strip t = t \<and> LF \<notin> set t \<and> CR \<notin> set t"
    by code_simp
  have f: "(\<lambda>_. Inr (''12'' @ [LF] @ ''345'' @ [LF])) ''h.txt''
      = (Inr (concat (map (\<lambda>t. t @ [LF]) [''12'', ''345''])) :: read_error + string)" by simp
  from baca_history_roundtrip [of "[''12'', ''345'']" "\<lambda>_. Inr (''12'' @ [LF] @ ''345'' @ [LF])" "''h.txt''", OF c f]
  show ?thesis by simp
qed

end
