(* ===== verification/Mirror.thy ===== *)
theory Mirror
  imports PyText
begin

text \<open>
  The mirror mapper, \<open>mirror_number\<close> (src/main.py lines 24 to 28): a fixed
  dict pairing each decimal digit with the digit five apart, looked up with
  \<open>mirror_map.get(int(n), int(n))\<close>. The program calls it only on strings
  (\<open>str\<close> of a ranked digit, line 98), so the model takes a string; \<open>int(n)\<close>
  may raise \<open>ValueError\<close>, which is the left value of the result. Shown here:
  on the string of a digit it returns the partner digit, the map is an involution
  without fixed points on the digits, and it is the identity off the digits.
\<close>

definition mirror_map :: "int \<rightharpoonup> int" where
  "mirror_map = [0 \<mapsto> 5, 1 \<mapsto> 6, 2 \<mapsto> 7, 3 \<mapsto> 8, 4 \<mapsto> 9,
                 5 \<mapsto> 0, 6 \<mapsto> 1, 7 \<mapsto> 2, 8 \<mapsto> 3, 9 \<mapsto> 4]"

definition mirror_get :: "int \<Rightarrow> int" where
  "mirror_get v = (case mirror_map v of None \<Rightarrow> v | Some m \<Rightarrow> m)"
  \<comment> \<open>\<open>mirror_map.get(v, v)\<close>\<close>

definition mirror_number :: "string \<Rightarrow> py_exc + int" where
  "mirror_number n =
     (case py_int_of_string n of None \<Rightarrow> Inl ValueError | Some v \<Rightarrow> Inr (mirror_get v))"

lemma mirror_get_digit: "0 \<le> d \<Longrightarrow> d \<le> 9 \<Longrightarrow> mirror_get d = (d + 5) mod 10"
proof -
  assume "0 \<le> d" "d \<le> 9"
  then have "d = 0 \<or> d = 1 \<or> d = 2 \<or> d = 3 \<or> d = 4 \<or> d = 5 \<or> d = 6 \<or> d = 7 \<or> d = 8 \<or> d = 9"
    by arith
  then show ?thesis by (elim disjE) (simp_all add: mirror_get_def mirror_map_def)
qed

lemma mirror_get_other: "d < 0 \<or> 9 < d \<Longrightarrow> mirror_get d = d"
  by (auto simp: mirror_get_def mirror_map_def)

lemma mirror_number_str [simp]: "mirror_number (py_str_int v) = Inr (mirror_get v)"
  by (simp add: mirror_number_def py_int_of_string_str_int)

text \<open>C12: on the string of a digit, \<open>mirror_number\<close> returns another digit, and
  mirroring that digit gives the first back: an involution without fixed points.\<close>

theorem mirror_number_involution:
  assumes "0 \<le> d" "d \<le> 9"
  shows "\<exists>e. mirror_number (py_str_int d) = Inr e \<and> 0 \<le> e \<and> e \<le> 9 \<and> e \<noteq> d
             \<and> mirror_number (py_str_int e) = Inr d"
proof -
  let ?e = "(d + 5) mod 10"
  have e: "0 \<le> ?e" "?e \<le> 9" by auto
  have "?e \<noteq> d" using assms by presburger
  moreover have "mirror_get ?e = d" using assms e by (simp add: mirror_get_digit mod_add_left_eq)
  ultimately show ?thesis using assms e by (simp add: mirror_get_digit)
qed

theorem mirror_number_involution_witness:
  "0 \<le> (3::int) \<and> (3::int) \<le> 9 \<and> (\<exists>e. mirror_number (py_str_int 3) = Inr e \<and> e \<noteq> 3)"
  using mirror_number_involution [of 3] by auto

end
