(* ===== verification/Digits.thy ===== *)
theory Digits
  imports PyText
begin

text \<open>
  The digit analyser, \<open>analisis_digit\<close> (src/main.py lines 47 to 61). Its two
  accumulators, the list \<open>semua_digit\<close> and the \<open>defaultdict(list)\<close>
  \<open>posisi_digit\<close>, are the fields of the record \<open>digit_state\<close>; the dict is a
  map from positions to lists, in which \<open>posisi_digit[i].append(x)\<close> creates the
  key \<open>i\<close> on first use (\<open>dd_append\<close>). The two nested \<open>for\<close> loops are folds
  over the history and over \<open>enumerate(angka)\<close>; the \<open>try\<close>/\<open>except
  ValueError\<close> around \<open>int(d)\<close> is the \<open>None\<close> branch of \<open>py_int_char\<close>.

  Shown here: the flat list is the list of decimal digits of the tokens in reading
  order (a refinement of the loop by a \<open>concat\<close>/\<open>map_filter\<close> specification),
  every element lies in 0 to 9, and position \<open>i\<close> of the dict holds exactly the
  digits found at index \<open>i\<close> of some token, in history order, with no key for a
  position at which no token has a digit. The two accumulators agree: the digits
  at all positions together are, as a multiset, the flat list (an invariant of the
  record kept by \<open>scan_char\<close>, carried through both loops by
  \<open>analisis_fold_invariant\<close>).
\<close>

record digit_state =
  semua_digit :: "int list"
  posisi_digit :: "nat \<Rightarrow> int list option"

definition dd_append :: "(nat \<Rightarrow> int list option) \<Rightarrow> nat \<Rightarrow> int \<Rightarrow> (nat \<Rightarrow> int list option)" where
  "dd_append m i x = m(i \<mapsto> (case m i of None \<Rightarrow> [] | Some xs \<Rightarrow> xs) @ [x])"

definition scan_char :: "digit_state \<Rightarrow> nat \<times> char \<Rightarrow> digit_state" where
  "scan_char st ic =
     (case ic of (i, d) \<Rightarrow>
        (case py_int_char d of
           None \<Rightarrow> st
         | Some digit \<Rightarrow>
             st\<lparr>semua_digit := semua_digit st @ [digit],
                posisi_digit := dd_append (posisi_digit st) i digit\<rparr>))"

definition scan_token :: "digit_state \<Rightarrow> string \<Rightarrow> digit_state" where
  "scan_token st angka = fold (\<lambda>ic st. scan_char st ic) (enumerate 0 angka) st"

definition digit_state_init :: digit_state where
  "digit_state_init = \<lparr>semua_digit = [], posisi_digit = Map.empty\<rparr>"

definition analisis_digit :: "history \<Rightarrow> int list \<times> (nat \<Rightarrow> int list option)" where
  "analisis_digit history =
     (let st = fold (\<lambda>angka st. scan_token st angka) history digit_state_init
      in (semua_digit st, posisi_digit st))"

subsection \<open>Specification\<close>

definition dd_get :: "(nat \<Rightarrow> int list option) \<Rightarrow> nat \<Rightarrow> int list" where
  "dd_get m i = (case m i of None \<Rightarrow> [] | Some xs \<Rightarrow> xs)"

definition digits_of :: "history \<Rightarrow> int list" where
  "digits_of history = concat (map (List.map_filter py_int_char) history)"

definition digits_at :: "nat \<Rightarrow> history \<Rightarrow> int list" where
  "digits_at i history =
     concat (map (\<lambda>t. if i < length t then List.map_filter py_int_char [t ! i] else []) history)"

definition no_empty_slot :: "(nat \<Rightarrow> int list option) \<Rightarrow> bool" where
  "no_empty_slot m \<longleftrightarrow> (\<forall>i. m i \<noteq> Some [])"

definition positions_cover :: "digit_state \<Rightarrow> bool" where
  "positions_cover st \<longleftrightarrow> finite (dom (posisi_digit st))
     \<and> mset (semua_digit st) = (\<Sum>i\<in>dom (posisi_digit st). mset (dd_get (posisi_digit st) i))"
  \<comment> \<open>every digit of the flat list is recorded once, at one position of the dict\<close>

subsection \<open>Invariants of the scan\<close>

lemma analisis_fold_invariant:
  assumes "\<And>st ic. P st \<Longrightarrow> P (scan_char st ic)" and "P st"
  shows "P (fold (\<lambda>angka st. scan_token st angka) h st)"
proof -
  have tok: "P (scan_token s angka)" if "P s" for s angka
    unfolding scan_token_def using that by (rule fold_invariant [where P = P]) (rule assms(1))
  show ?thesis using assms(2) by (rule fold_invariant [where P = P]) (rule tok)
qed

subsection \<open>The flat list\<close>

lemma semua_scan_char:
  "semua_digit (scan_char st (i, d)) = semua_digit st @ List.map_filter py_int_char [d]"
  by (simp add: scan_char_def split: option.splits)

lemma semua_scan_enum:
  "semua_digit (fold (\<lambda>ic st. scan_char st ic) (enumerate n t) st)
     = semua_digit st @ List.map_filter py_int_char t"
proof (induction t arbitrary: n st)
  case Nil
  then show ?case by (simp add:)
next
  case (Cons c t)
  then show ?case
    by (simp add: semua_scan_char split: option.splits)
qed

lemma semua_analisis_fold:
  "semua_digit (fold (\<lambda>angka st. scan_token st angka) h st)
     = semua_digit st @ concat (map (List.map_filter py_int_char) h)"
  by (induction h arbitrary: st) (simp_all add: scan_token_def semua_scan_enum)

lemma fst_analisis_digit: "fst (analisis_digit h) = digits_of h"
  by (simp add: analisis_digit_def digits_of_def semua_analisis_fold digit_state_init_def)

lemma digits_of_range: "set (digits_of h) \<subseteq> {0..9}"
  by (auto simp: digits_of_def in_set_map_filter dest: py_int_char_SomeD)

subsection \<open>The positional dict\<close>

lemma dd_get_append [simp]: "dd_get (dd_append m i x) j = dd_get m j @ (if j = i then [x] else [])"
  by (simp add: dd_get_def dd_append_def split: option.splits)

lemma no_empty_slot_append: "no_empty_slot m \<Longrightarrow> no_empty_slot (dd_append m i x)"
  by (simp add: no_empty_slot_def dd_append_def)

lemma no_empty_slot_eq:
  "no_empty_slot m \<Longrightarrow> m i = (if dd_get m i = [] then None else Some (dd_get m i))"
  by (auto simp: no_empty_slot_def dd_get_def split: option.splits)

lemma posisi_scan_char:
  "dd_get (posisi_digit (scan_char st (i, d))) j
     = dd_get (posisi_digit st) j @ (if j = i then List.map_filter py_int_char [d] else [])"
  by (simp add: scan_char_def split: option.splits)

lemma no_empty_scan_char:
  "no_empty_slot (posisi_digit st) \<Longrightarrow> no_empty_slot (posisi_digit (scan_char st ic))"
  by (cases ic) (auto simp: scan_char_def no_empty_slot_append split: option.splits)

lemma posisi_scan_enum:
  "dd_get (posisi_digit (fold (\<lambda>ic st. scan_char st ic) (enumerate n t) st)) j
     = dd_get (posisi_digit st) j
       @ (if n \<le> j \<and> j < n + length t then List.map_filter py_int_char [t ! (j - n)] else [])"
proof (induction t arbitrary: n st)
  case Nil
  then show ?case by auto
next
  case (Cons c t)
  have "j - n = Suc (j - Suc n)" if "Suc n \<le> j" using that by arith
  then show ?case
    using Cons [of "Suc n" "scan_char st (n, c)"]
    by (auto simp: posisi_scan_char split: option.splits)
qed

lemma posisi_analisis_fold:
  "dd_get (posisi_digit (fold (\<lambda>angka st. scan_token st angka) h st)) j
     = dd_get (posisi_digit st) j @ digits_at j h"
  by (induction h arbitrary: st) (simp_all add: scan_token_def posisi_scan_enum digits_at_def)

lemma dom_dd_append: "dom (dd_append m i x) = insert i (dom m)"
  by (auto simp: dd_append_def)

lemma sum_dd_append:
  assumes "finite (dom m)"
  shows "(\<Sum>j\<in>insert i (dom m). mset (dd_get (dd_append m i x) j))
           = (\<Sum>j\<in>dom m. mset (dd_get m j)) + {#x#}"
proof -
  have "(\<Sum>j\<in>insert i (dom m). mset (dd_get (dd_append m i x) j))
      = (\<Sum>j\<in>insert i (dom m). mset (dd_get m j)) + (\<Sum>j\<in>insert i (dom m). if j = i then {#x#} else {#})"
    by (subst sum.distrib [symmetric]) (rule sum.cong; simp)
  also have "(\<Sum>j\<in>insert i (dom m). mset (dd_get m j)) = (\<Sum>j\<in>dom m. mset (dd_get m j))"
    using assms by (cases "i \<in> dom m") (auto simp: insert_absorb dd_get_def domIff)
  also have "(\<Sum>j\<in>insert i (dom m). if j = i then {#x#} else {#}) = {#x#}"
    using assms by (simp add: sum.delta)
  finally show ?thesis .
qed

lemma positions_cover_scan_char: "positions_cover st \<Longrightarrow> positions_cover (scan_char st ic)"
  by (cases ic) (auto simp del: dd_get_append simp: scan_char_def positions_cover_def dom_dd_append sum_dd_append
      split: option.split)

subsection \<open>Properties of \<open>analisis_digit\<close>\<close>

text \<open>C7: the flat list \<open>semua_digit\<close> is the list of the decimal digits of the
  tokens, token after token, each token read left to right; non-digit characters
  are skipped.\<close>

theorem analisis_digit_flat:
  "fst (analisis_digit history) = concat (map (List.map_filter py_int_char) history)"
  by (simp add: fst_analisis_digit digits_of_def)

text \<open>C8: every element of the flat list is a digit value between 0 and 9.\<close>

theorem analisis_digit_range: "set (fst (analisis_digit history)) \<subseteq> {0..9}"
  by (simp add: fst_analisis_digit digits_of_range)

text \<open>C9: the dict \<open>posisi_digit\<close> has a key \<open>i\<close> exactly when some token has a
  digit at index \<open>i\<close>, and it maps \<open>i\<close> to those digits in history order.\<close>

theorem analisis_digit_positions:
  "snd (analisis_digit history) i =
     (if digits_at i history = [] then None else Some (digits_at i history))"
proof -
  let ?st = "fold (\<lambda>angka st. scan_token st angka) history digit_state_init"
  have "no_empty_slot (posisi_digit ?st)"
    by (rule analisis_fold_invariant [where P = "\<lambda>st. no_empty_slot (posisi_digit st)"], erule no_empty_scan_char)
      (simp add: digit_state_init_def no_empty_slot_def)
  moreover have "dd_get (posisi_digit ?st) i = digits_at i history"
    using posisi_analisis_fold [of history digit_state_init i]
    by (simp add: digit_state_init_def dd_get_def)
  ultimately show ?thesis
    by (simp add: analisis_digit_def Let_def no_empty_slot_eq [of "posisi_digit ?st" i])
qed

text \<open>C34: the two accumulators agree: the digits recorded at the positions of the
  dict, taken together, are exactly the digits of the flat list, each recorded
  once. The invariant holds of the empty state and \<open>scan_char\<close>, the body of the
  inner loop, keeps it.\<close>

theorem analisis_digit_partition:
  "finite (dom (snd (analisis_digit history)))
   \<and> mset (fst (analisis_digit history))
       = (\<Sum>i\<in>dom (snd (analisis_digit history)). mset (the (snd (analisis_digit history) i)))"
proof -
  let ?st = "fold (\<lambda>angka st. scan_token st angka) history digit_state_init"
  have "positions_cover ?st"
    by (rule analisis_fold_invariant [where P = positions_cover], erule positions_cover_scan_char)
      (simp add: digit_state_init_def positions_cover_def)
  moreover have "(\<Sum>i\<in>dom (posisi_digit ?st). mset (dd_get (posisi_digit ?st) i))
      = (\<Sum>i\<in>dom (posisi_digit ?st). mset (the (posisi_digit ?st i)))"
    by (intro sum.cong) (auto simp: dd_get_def)
  ultimately show ?thesis by (simp add: analisis_digit_def Let_def positions_cover_def)
qed

end
