(* ===== verification/PyCounter.thy ===== *)
theory PyCounter
  imports Prelude
begin

text \<open>
  Python's \<open>collections.Counter\<close> as the program uses it: \<open>c[k] += 1\<close>
  (src/main.py line 72), \<open>Counter(iterable)\<close> (line 84), truth value (line 103)
  and \<open>most_common(n)\<close> (lines 85 and 104). A Counter is a dict, whose iteration
  order is insertion order; \<open>most_common\<close> breaks ties by that order. So the
  model is an association list with the keys in insertion order. Its invariant
  (\<open>counter_wf\<close>): keys are distinct and every stored count is positive.

  \<open>most_common(n)\<close> is \<open>heapq.nlargest(n, items, key=count)\<close>, documented as
  \<open>sorted(items, key=count, reverse=True)[:n]\<close>; Python's sort is stable, also
  with \<open>reverse=True\<close>. For \<open>n \<le> 0\<close> the result is empty. The model sorts
  with the library's stable insertion sort \<open>sort_key\<close> on the negated count. The
  lemmas (counts, key order, sortedness, ties, top-n selection) are used by the
  report's claims on the ranking.
\<close>

type_synonym 'k counter = "('k \<times> nat) list"

fun counter_inc :: "'k counter \<Rightarrow> 'k \<Rightarrow> 'k counter" where
  "counter_inc [] k = [(k, 1)]"
| "counter_inc ((k', n) # kvs) k =
     (if k' = k then (k', Suc n) # kvs else (k', n) # counter_inc kvs k)"

definition counter_get :: "'k counter \<Rightarrow> 'k \<Rightarrow> nat" where
  "counter_get c k = (case map_of c k of None \<Rightarrow> 0 | Some n \<Rightarrow> n)"

definition Counter :: "'k list \<Rightarrow> 'k counter" where
  "Counter xs = fold (\<lambda>x c. counter_inc c x) xs []"

definition count_desc :: "'k \<times> nat \<Rightarrow> int" where
  "count_desc kv = - int (snd kv)"

definition most_common :: "'k counter \<Rightarrow> int \<Rightarrow> ('k \<times> nat) list" where
  "most_common c n = (if n \<le> 0 then [] else take (nat n) (sort_key count_desc c))"

definition counter_wf :: "'k counter \<Rightarrow> bool" where
  "counter_wf c \<longleftrightarrow> distinct (map fst c) \<and> (\<forall>kv\<in>set c. 0 < snd kv)"

subsection \<open>Increment\<close>

lemma counter_get_Nil [simp]: "counter_get [] k = 0"
  by (simp add: counter_get_def)

lemma counter_get_Cons [simp]:
  "counter_get ((k', n) # kvs) k = (if k' = k then n else counter_get kvs k)"
  by (simp add: counter_get_def)

lemma counter_get_inc [simp]:
  "counter_get (counter_inc c k) k' = counter_get c k' + (if k' = k then 1 else 0)"
  by (induction c k rule: counter_inc.induct) auto

lemma keys_counter_inc:
  "map fst (counter_inc c k) = (if k \<in> set (map fst c) then map fst c else map fst c @ [k])"
  by (induction c k rule: counter_inc.induct) auto

lemma set_keys_counter_inc [simp]: "fst ` set (counter_inc c k) = insert k (fst ` set c)"
  using keys_counter_inc [of c k] by (metis insert_absorb list.set_map set_append empty_set list.simps(15) Un_insert_right sup_bot.right_neutral)

lemma counter_inc_pos: "\<forall>kv\<in>set c. 0 < snd kv \<Longrightarrow> \<forall>kv\<in>set (counter_inc c k). 0 < snd kv"
  by (induction c k rule: counter_inc.induct) auto

lemma counter_wf_inc:
  assumes "counter_wf c"
  shows "counter_wf (counter_inc c k)"
proof -
  have "\<forall>kv\<in>set (counter_inc c k). 0 < snd kv"
    using assms by (intro counter_inc_pos) (simp add: counter_wf_def)
  moreover have "distinct (map fst (counter_inc c k))"
    using assms by (simp add: counter_wf_def keys_counter_inc)
  ultimately show ?thesis by (simp add: counter_wf_def)
qed

lemma counter_get_pos_iff: "counter_wf c \<Longrightarrow> 0 < counter_get c k \<longleftrightarrow> k \<in> fst ` set c"
  by (induction c) (auto simp: counter_wf_def)

subsection \<open>Counting a list\<close>

lemma counter_get_fold:
  "counter_get (fold (\<lambda>x c. counter_inc c x) xs c) k = counter_get c k + count_list xs k"
  by (induction xs arbitrary: c) auto

lemma counter_wf_fold: "counter_wf c \<Longrightarrow> counter_wf (fold (\<lambda>x c. counter_inc c x) xs c)"
  by (erule fold_invariant) (erule counter_wf_inc)

lemma Counter_snoc: "Counter (xs @ [x]) = counter_inc (Counter xs) x"
  by (simp add: Counter_def)

lemma counter_get_Counter: "counter_get (Counter xs) k = count_list xs k"
  by (simp add: Counter_def counter_get_fold)

lemma counter_wf_Counter: "counter_wf (Counter xs)"
  unfolding Counter_def by (rule counter_wf_fold) (simp add: counter_wf_def)

lemma set_keys_Counter: "fst ` set (Counter xs) = set xs"
  by (induction xs rule: rev_induct) (auto simp: Counter_snoc, simp add: Counter_def)

lemma keys_Counter: "map fst (Counter xs) = rev (remdups (rev xs))"
proof (induction xs rule: rev_induct)
  case Nil
  then show ?case by (simp add: Counter_def)
next
  case (snoc x xs)
  have "x \<in> set (map fst (Counter xs)) \<longleftrightarrow> x \<in> set xs"
    using set_keys_Counter [of xs] by (metis list.set_map)
  with snoc show ?case by (simp add: Counter_snoc keys_counter_inc)
qed

subsection \<open>\<open>most_common\<close>\<close>

lemma most_common_nonpos [simp]: "n \<le> 0 \<Longrightarrow> most_common c n = []"
  by (simp add: most_common_def)

lemma length_most_common:
  "length (most_common c n) = (if n \<le> 0 then 0 else min (nat n) (length c))"
  by (simp add: most_common_def min.commute)

lemma set_most_common: "set (most_common c n) \<subseteq> set c"
  by (auto simp: most_common_def dest: in_set_takeD)

lemma counter_wf_most_common: "counter_wf c \<Longrightarrow> counter_wf (most_common c n)"
proof -
  assume wf: "counter_wf c"
  have "mset (map fst (sort_key count_desc c)) = mset (map fst c)" by simp
  then have "distinct (map fst (sort_key count_desc c)) = distinct (map fst c)"
    by (rule mset_eq_imp_distinct_iff)
  with wf have "distinct (map fst (sort_key count_desc c))" by (simp add: counter_wf_def)
  then have "distinct (map fst (most_common c n))"
    by (simp add: most_common_def take_map [symmetric])
  moreover have "\<forall>kv\<in>set (most_common c n). 0 < snd kv"
    using wf set_most_common [of c n] by (auto simp: counter_wf_def)
  ultimately show ?thesis by (simp add: counter_wf_def)
qed

lemma sorted_sort_desc: "sorted_wrt (\<lambda>a b. snd b \<le> snd a) (sort_key count_desc c)"
proof -
  have "sorted (map count_desc (sort_key count_desc c))" by simp
  then show ?thesis by (simp add: sorted_map count_desc_def)
qed

lemma sorted_most_common: "sorted_wrt (\<lambda>a b. snd b \<le> snd a) (most_common c n)"
  using sorted_sort_desc [of c] by (simp add: most_common_def sorted_wrt_take)

text \<open>An entry left out of \<open>most_common(n)\<close> has no larger count than any entry in it.\<close>

lemma most_common_top:
  assumes "y \<in> set c" and "y \<notin> set (most_common c n)" and "x \<in> set (most_common c n)"
  shows "snd y \<le> snd x"
proof -
  let ?xs = "sort_key count_desc c"
  from assms(3) have n: "\<not> n \<le> 0" by (auto simp: most_common_def)
  then have x: "x \<in> set (take (nat n) ?xs)" and y: "y \<notin> set (take (nat n) ?xs)"
    using assms(2,3) by (simp_all add: most_common_def)
  have "y \<in> set ?xs" using assms(1) by simp
  then have "y \<in> set (drop (nat n) ?xs)" using y by (metis Un_iff append_take_drop_id set_append)
  moreover have "sorted_wrt (\<lambda>a b. snd b \<le> snd a) (take (nat n) ?xs @ drop (nat n) ?xs)"
    by (simp only: append_take_drop_id) (rule sorted_sort_desc)
  then have "\<forall>a\<in>set (take (nat n) ?xs). \<forall>b\<in>set (drop (nat n) ?xs). snd b \<le> snd a"
    by (simp only: sorted_wrt_append) blast
  ultimately show ?thesis using x by blast
qed

lemma counter_as_map: "distinct (map fst c) \<Longrightarrow> map (\<lambda>k. (k, counter_get c k)) (map fst c) = c"
proof (induction c)
  case (Cons kv c)
  obtain a b where kv: "kv = (a, b)" by (cases kv)
  have "map (\<lambda>k. (k, counter_get ((a, b) # c) k)) (map fst c) = map (\<lambda>k. (k, counter_get c k)) (map fst c)"
    using Cons.prems kv by (intro map_cong) auto
  with Cons kv show ?case by simp
qed simp

lemma Counter_eq: "Counter xs = map (\<lambda>k. (k, count_list xs k)) (rev (remdups (rev xs)))"
proof -
  have "map (\<lambda>k. (k, counter_get (Counter xs) k)) (map fst (Counter xs)) = Counter xs"
    using counter_wf_Counter [of xs] by (intro counter_as_map) (simp add: counter_wf_def)
  then have "map (\<lambda>k. (k, count_list xs k)) (rev (remdups (rev xs))) = Counter xs"
    by (simp only: keys_Counter counter_get_Counter)
  then show ?thesis by (rule sym)
qed

lemma filter_take_prefix:
  "filter P (take j xs) = take (length (filter P (take j xs))) (filter P xs)"
proof -
  have "filter P xs = filter P (take j xs) @ filter P (drop j xs)"
    by (metis append_take_drop_id filter_append)
  then show ?thesis by (metis append_eq_conv_conj)
qed

text \<open>Entries of equal count keep the order they have in the counter.\<close>

lemma most_common_ties:
  "\<exists>k. filter (\<lambda>kv. snd kv = m) (most_common c n) = take k (filter (\<lambda>kv. snd kv = m) c)"
proof (cases "n \<le> 0")
  case True
  then show ?thesis by (intro exI [of _ 0]) simp
next
  case False
  have eq: "(\<lambda>kv. snd kv = m) = (\<lambda>kv. count_desc kv = - int m)"
    by (auto simp: count_desc_def)
  have "filter (\<lambda>kv. snd kv = m) (sort_key count_desc c) = filter (\<lambda>kv. snd kv = m) c"
    unfolding eq by (rule sort_key_stable)
  with False show ?thesis
    by (metis filter_take_prefix most_common_def)
qed

end
