(* ===== verification/Pairs.thy ===== *)
theory Pairs
  imports PyText PyCounter
begin

text \<open>
  The pair counter, \<open>hitung_angka_ikut\<close> (src/main.py lines 64 to 73). For each
  token, \<open>digit_unik = sorted(list(set(angka)))\<close> is the strictly ascending list
  of its distinct characters (\<open>sorted_list_of_set\<close>, ordered by code point as
  Python orders \<open>str\<close>); the two \<open>for\<close> loops over \<open>range\<close> are folds over
  \<open>[0..<n]\<close> and \<open>[i + 1..<n]\<close>, whose body (\<open>pair_body\<close>) increments the
  Counter entry of the pair when both characters pass \<open>str.isdigit\<close>.

  The index loops are shown equal to a structural enumeration \<open>pairs_from\<close> of
  the pairs of a list, which is distinct and has exactly the ordered pairs of
  digit characters of the token as its elements. Hence the count of a key
  \<open>(a, b)\<close> is the number of tokens that contain both \<open>a\<close> and \<open>b\<close> when
  \<open>a < b\<close> and both are digits, and 0 otherwise; and every key is normalised.
\<close>

definition pair_body ::
  "char list \<Rightarrow> nat \<Rightarrow> nat \<Rightarrow> (char \<times> char) counter \<Rightarrow> (char \<times> char) counter" where
  "pair_body du i j pc =
     (if py_isdigit (du ! i) \<and> py_isdigit (du ! j) then counter_inc pc (du ! i, du ! j) else pc)"

definition count_token_pairs :: "(char \<times> char) counter \<Rightarrow> string \<Rightarrow> (char \<times> char) counter" where
  "count_token_pairs pc angka =
     (let digit_unik = sorted_list_of_set (set angka)
      in fold (\<lambda>i pc. fold (\<lambda>j pc. pair_body digit_unik i j pc) [i + 1..<length digit_unik] pc)
              [0..<length digit_unik] pc)"

definition hitung_angka_ikut :: "history \<Rightarrow> (char \<times> char) counter" where
  "hitung_angka_ikut history = fold (\<lambda>angka pc. count_token_pairs pc angka) history []"

subsection \<open>Specification\<close>

definition digit_pair :: "char \<Rightarrow> char \<Rightarrow> (char \<times> char) option" where
  "digit_pair a b = (if py_isdigit a \<and> py_isdigit b then Some (a, b) else None)"

definition token_pairs :: "char list \<Rightarrow> (char \<times> char) list" where
  "token_pairs du =
     concat (map (\<lambda>i. List.map_filter (\<lambda>j. digit_pair (du ! i) (du ! j)) [i + 1..<length du])
                 [0..<length du])"

fun pairs_from :: "char list \<Rightarrow> (char \<times> char) list" where
  "pairs_from [] = []"
| "pairs_from (x # xs) = List.map_filter (digit_pair x) xs @ pairs_from xs"

definition ordered_digit_pair :: "char \<times> char \<Rightarrow> bool" where
  "ordered_digit_pair ab \<longleftrightarrow> fst ab < snd ab \<and> py_isdigit (fst ab) \<and> py_isdigit (snd ab)"

subsection \<open>The index loops\<close>

lemma fold_pair_body:
  "fold (\<lambda>j pc. pair_body du i j pc) js pc
     = fold (\<lambda>k pc. counter_inc pc k) (List.map_filter (\<lambda>j. digit_pair (du ! i) (du ! j)) js) pc"
  by (induction js arbitrary: pc) (simp_all add: pair_body_def digit_pair_def)

lemma fold_nested_pairs:
  "fold (\<lambda>i pc. fold (\<lambda>j pc. pair_body du i j pc) [i + 1..<length du] pc) is pc
     = fold (\<lambda>k pc. counter_inc pc k)
         (concat (map (\<lambda>i. List.map_filter (\<lambda>j. digit_pair (du ! i) (du ! j)) [i + 1..<length du]) is)) pc"
  by (induction "is" arbitrary: pc) (simp_all add: fold_pair_body)

lemma count_token_pairs_fold:
  "count_token_pairs pc angka
     = fold (\<lambda>k pc. counter_inc pc k) (token_pairs (sorted_list_of_set (set angka))) pc"
  unfolding count_token_pairs_def token_pairs_def Let_def by (rule fold_nested_pairs)

lemma map_filter_map: "List.map_filter f (map g xs) = List.map_filter (f \<circ> g) xs"
  by (induction xs) (auto split: option.splits)

lemma map_filter_nth_upt:
  "List.map_filter (\<lambda>j. f (xs ! j)) [0..<length xs] = List.map_filter f xs"
proof -
  have "List.map_filter (\<lambda>j. f (xs ! j)) [0..<length xs] = List.map_filter f (map (nth xs) [0..<length xs])"
    by (simp add: map_filter_map comp_def)
  then show ?thesis by (simp add: map_nth)
qed

lemma token_pairs_Cons: "token_pairs (x # xs) = List.map_filter (digit_pair x) xs @ token_pairs xs"
proof -
  let ?F = "\<lambda>du i. List.map_filter (\<lambda>j. digit_pair (du ! i) (du ! j)) [i + 1..<length du]"
  have upt: "[0..<length (x # xs)] = 0 # map Suc [0..<length xs]"
    by (simp add: map_Suc_upt upt_conv_Cons del: upt_Suc)
  have inner: "[Suc i + 1..<length (x # xs)] = map Suc [i + 1..<length xs]" for i
    by (simp add: map_Suc_upt del: upt_Suc)
  have head: "?F (x # xs) 0 = List.map_filter (digit_pair x) xs"
  proof -
    have "[0 + 1..<length (x # xs)] = map Suc [0..<length xs]"
      by (simp add: map_Suc_upt del: upt_Suc)
    then show ?thesis
      by (simp add: map_filter_map comp_def map_filter_nth_upt del: upt_Suc)
  qed
  have tail: "?F (x # xs) (Suc i) = ?F xs i" for i
    by (simp only: inner map_filter_map comp_def nth_Cons_Suc)
  show ?thesis
    unfolding token_pairs_def upt by (simp only: list.map concat.simps head tail map_map comp_def)
qed

lemma token_pairs_eq: "token_pairs du = pairs_from du"
  by (induction du) (simp_all add: token_pairs_Cons, simp add: token_pairs_def)

subsection \<open>The pairs of a strictly sorted list\<close>

lemma set_map_filter_digit_pair:
  "set (List.map_filter (digit_pair x) xs) = {(x, y) | y. y \<in> set xs \<and> py_isdigit x \<and> py_isdigit y}"
  by (auto simp: in_set_map_filter digit_pair_def split: if_splits)

lemma set_pairs_from:
  "sorted_wrt (<) du \<Longrightarrow> set (pairs_from du) = {ab. fst ab \<in> set du \<and> snd ab \<in> set du \<and> ordered_digit_pair ab}"
proof (induction du)
  case Nil
  then show ?case by simp
next
  case (Cons x xs)
  then have lt: "\<forall>y\<in>set xs. x < y" and IH: "set (pairs_from xs) = {ab. fst ab \<in> set xs \<and> snd ab \<in> set xs \<and> ordered_digit_pair ab}"
    by auto
  show ?case
    using lt IH by (auto simp: set_map_filter_digit_pair ordered_digit_pair_def)
qed

lemma distinct_pairs_from: "sorted_wrt (<) du \<Longrightarrow> distinct (pairs_from du)"
proof (induction du)
  case Nil
  then show ?case by simp
next
  case (Cons x xs)
  then have "distinct xs" and "x \<notin> set xs" and "sorted_wrt (<) xs"
    by (auto simp: strict_sorted_iff)
  moreover have "distinct (List.map_filter (digit_pair x) xs)"
    using \<open>distinct xs\<close> by (induction xs) (auto simp: digit_pair_def in_set_map_filter)
  moreover have "fst ab = x" if "ab \<in> set (List.map_filter (digit_pair x) xs)" for ab
    using that by (auto simp: set_map_filter_digit_pair)
  moreover have "fst ab \<in> set xs" if "ab \<in> set (pairs_from xs)" for ab
    using that set_pairs_from [OF \<open>sorted_wrt (<) xs\<close>] by auto
  ultimately show ?case using Cons.IH by fastforce
qed

lemma count_token_pairs_get:
  "counter_get (count_token_pairs pc angka) ab
     = counter_get pc ab + (if ab \<in> set angka \<times> set angka \<and> ordered_digit_pair ab then 1 else 0)"
proof -
  let ?du = "sorted_list_of_set (set angka)"
  have sorted: "sorted_wrt (<) ?du" by (simp add: strict_sorted_list_of_set)
  have "count_list (pairs_from ?du) ab = (if ab \<in> set (pairs_from ?du) then 1 else 0)"
    using distinct_pairs_from [OF sorted] by (rule count_list_distinct)
  then show ?thesis
    using set_pairs_from [OF sorted]
    by (auto simp: count_token_pairs_fold token_pairs_eq counter_get_fold mem_Times_iff)
qed

lemma counter_wf_count_token_pairs: "counter_wf pc \<Longrightarrow> counter_wf (count_token_pairs pc angka)"
  by (simp add: count_token_pairs_fold counter_wf_fold)

lemma hitung_fold_get:
  "counter_get (fold (\<lambda>angka pc. count_token_pairs pc angka) h pc) ab
     = counter_get pc ab + (if ordered_digit_pair ab then length (filter (\<lambda>t. ab \<in> set t \<times> set t) h) else 0)"
  by (induction h arbitrary: pc) (auto simp: count_token_pairs_get)

lemma counter_wf_hitung: "counter_wf (hitung_angka_ikut history)"
  unfolding hitung_angka_ikut_def
  by (rule fold_invariant [where P = counter_wf], simp add: counter_wf_def) (erule counter_wf_count_token_pairs)

lemma hitung_fold_concat:
  "fold (\<lambda>angka pc. count_token_pairs pc angka) h pc
     = fold (\<lambda>k pc. counter_inc pc k) (concat (map (\<lambda>angka. pairs_from (sorted_list_of_set (set angka))) h)) pc"
  by (induction h arbitrary: pc) (simp_all add: count_token_pairs_fold token_pairs_eq)

subsection \<open>Properties of \<open>hitung_angka_ikut\<close>\<close>

text \<open>C10: the count of a pair \<open>(a, b)\<close> is the number of tokens containing both
  characters when \<open>a < b\<close> and both pass \<open>str.isdigit\<close>, and 0 otherwise: each
  token adds at most one to a pair however often its digits repeat, and
  \<open>(b, a)\<close> is never counted for \<open>a < b\<close>.\<close>

theorem hitung_angka_ikut_count:
  "counter_get (hitung_angka_ikut history) (a, b) =
     (if a < b \<and> py_isdigit a \<and> py_isdigit b
      then length (filter (\<lambda>t. a \<in> set t \<and> b \<in> set t) history) else 0)"
  by (simp add: hitung_angka_ikut_def hitung_fold_get ordered_digit_pair_def)

text \<open>C11: the pair counter is a well-formed Counter (distinct keys, positive
  counts) whose keys are all normalised pairs of digit characters.\<close>

theorem hitung_angka_ikut_keys:
  "counter_wf (hitung_angka_ikut history) \<and>
   fst ` set (hitung_angka_ikut history) \<subseteq> {(a, b). a < b \<and> py_isdigit a \<and> py_isdigit b}"
proof -
  have wf: "counter_wf (hitung_angka_ikut history)" by (rule counter_wf_hitung)
  have "ordered_digit_pair ab" if "ab \<in> fst ` set (hitung_angka_ikut history)" for ab
  proof -
    from that wf have "0 < counter_get (hitung_angka_ikut history) ab"
      by (simp add: counter_get_pos_iff)
    then show ?thesis by (simp add: hitung_angka_ikut_def hitung_fold_get split: if_splits)
  qed
  then have "fst ` set (hitung_angka_ikut history) \<subseteq> Collect ordered_digit_pair" by blast
  moreover have "Collect ordered_digit_pair = {(a, b). a < b \<and> py_isdigit a \<and> py_isdigit b}"
    by (auto simp: ordered_digit_pair_def)
  ultimately show ?thesis using wf by simp
qed

theorem hitung_angka_ikut_keys_witness:
  "counter_wf (hitung_angka_ikut [''112'']) \<and> hitung_angka_ikut [''112''] = [((CHR ''1'', CHR ''2''), 1)]"
proof -
  have "hitung_angka_ikut [''112''] = [((CHR ''1'', CHR ''2''), 1)]" by code_simp
  then show ?thesis using hitung_angka_ikut_keys [of "[''112'']"] by simp
qed

text \<open>C31: the two index loops over \<open>range(len(digit_unik))\<close> compute the same
  Counter, with the same insertion order, as counting the pairs of a structural
  enumeration: for each token in order, every digit character of the sorted
  distinct characters paired with each later one.\<close>

theorem hitung_angka_ikut_equiv:
  "hitung_angka_ikut history
     = Counter (concat (map (\<lambda>angka. pairs_from (sorted_list_of_set (set angka))) history))"
  by (simp add: hitung_angka_ikut_def hitung_fold_concat Counter_def)

end
