(* ===== verification/Report.thy ===== *)
theory Report
  imports Mirror Digits Pairs
begin

text \<open>
  The report generator, \<open>generate_bbfs_prediktif\<close> (src/main.py lines 76 to
  111). It returns early with a fixed message on an empty history and on a
  history without decimal digits; otherwise it ranks the digits with
  \<open>Counter(semua_digit).most_common(top_n)\<close>, writes the ranked digits, their
  concatenation (the BBFS set), the mirror of that string digit by digit, the five
  strongest pairs of \<open>hitung_angka_ikut\<close> when there are any, and the disclaimer.

  The text is built by \<open>+=\<close> on one string; the model concatenates the same
  pieces in the same order, each f-string a definition named after its line. The
  text is the UTF-8 encoding of the Python string: the emoji are their byte
  sequences, a character of a pair is encoded by \<open>utf8_char\<close>. The list
  comprehension of line 98 calls \<open>mirror_number\<close>, which may raise, so the
  result is \<open>py_exc + string\<close>; the theorems show it never does. (The locals
  \<open>semua_digit\<close> and \<open>posisi_digit\<close> of line 80 are primed in the model, their
  plain names being the fields of \<open>digit_state\<close>.)

  Shown here: the early returns (C1, C2), no exception (C3), the full text (C4),
  the mirror and BBFS strings (C5, C6, C15), and the ranking \<open>angka_teratas\<close> of
  lines 84 and 85: its order and ties (C13), its top-n selection with exact counts
  (C14), its well-formedness (C32).
\<close>

subsection \<open>Fixed text\<close>

definition nl :: string where
  "nl = [CHR 0x0A]"

definition fire_emoji :: string where
  "fire_emoji = [CHR 0xF0, CHR 0x9F, CHR 0x94, CHR 0xA5]"
  \<comment> \<open>U+1F525\<close>

definition keycap :: "char \<Rightarrow> string" where
  "keycap c = [c, CHR 0xEF, CHR 0xB8, CHR 0x8F, CHR 0xE2, CHR 0x83, CHR 0xA3]"
  \<comment> \<open>the digit, U+FE0F, U+20E3\<close>

definition msg_empty_history :: string where
  "msg_empty_history = ''Data histori kosong atau tidak valid. Tidak ada yang bisa dianalisis.''"

definition msg_no_digits :: string where
  "msg_no_digits = ''Tidak ada digit valid yang ditemukan dalam histori.''"

definition disclaimer :: string where
  "disclaimer = nl @ nl @
     ''_Disclaimer: Analisis ini berdasarkan data historis dan hanya untuk referensi. Gunakan dengan bijak._''"

subsection \<open>The pieces of the report\<close>

definition header_text :: "history \<Rightarrow> string" where
  "header_text history =
     fire_emoji @ '' *Hasil Analisis dari '' @ py_str_nat (length history) @ '' Data Terakhir* ''
     @ fire_emoji @ nl @ nl"

definition top_heading :: "(int \<times> nat) list \<Rightarrow> string" where
  "top_heading angka_teratas =
     keycap (CHR ''1'') @ '' *Top '' @ py_str_nat (length angka_teratas)
     @ '' Angka Paling Sering Muncul:*'' @ nl"

definition digit_line :: "int \<times> nat \<Rightarrow> string" where
  "digit_line df = (case df of (digit, freq) \<Rightarrow>
     ''   - Angka `'' @ py_str_int digit @ ''`: muncul '' @ py_str_nat freq @ '' kali'' @ nl)"

definition bbfs_section :: "string list \<Rightarrow> string" where
  "bbfs_section top_digits_set =
     nl @ keycap (CHR ''2'') @ '' *Rekomendasi BBFS '' @ py_str_nat (length top_digits_set)
     @ '' Digit:*'' @ nl @ ''   `'' @ concat top_digits_set @ ''`'' @ nl"

definition mirror_heading :: string where
  "mirror_heading = nl @ keycap (CHR ''3'') @ '' *Angka Cermin (Mirror) dari Top Digit:*'' @ nl"

definition mirror_str :: "string \<Rightarrow> py_exc + string" where
  "mirror_str d = (case mirror_number d of Inl e \<Rightarrow> Inl e | Inr m \<Rightarrow> Inr (py_str_int m))"
  \<comment> \<open>\<open>str(mirror_number(d))\<close>\<close>

definition mirror_line :: "string list \<Rightarrow> string" where
  "mirror_line mirror_digits = ''   `'' @ concat mirror_digits @ ''`'' @ nl"

definition pair_line :: "(char \<times> char) \<times> nat \<Rightarrow> string" where
  "pair_line pf = (case pf of ((a, b), freq) \<Rightarrow>
     ''   - Pasangan `('' @ utf8_char a @ '', '' @ utf8_char b @ '')`: muncul bersama ''
     @ py_str_nat freq @ '' kali'' @ nl)"

definition pairs_section :: "((char \<times> char) \<times> nat) list \<Rightarrow> string" where
  "pairs_section top_pairs =
     nl @ keycap (CHR ''4'') @ '' *Top 5 Pasangan Angka Ikut Terkuat:*'' @ nl
     @ concat (map pair_line top_pairs)"

subsection \<open>The generator\<close>

definition generate_bbfs_prediktif :: "history \<Rightarrow> int \<Rightarrow> py_exc + string" where
  "generate_bbfs_prediktif history top_n =
     (if history = [] then Inr msg_empty_history
      else
        (case analisis_digit history of
           (semua_digit', posisi_digit') \<Rightarrow>
             (if semua_digit' = [] then Inr msg_no_digits
              else
                (let frekuensi = Counter semua_digit';
                     angka_teratas = most_common frekuensi top_n;
                     pesan_hasil = header_text history @ top_heading angka_teratas
                                   @ concat (map digit_line angka_teratas);
                     top_digits_set = map (\<lambda>d. py_str_int (fst d)) angka_teratas;
                     pesan_hasil = pesan_hasil @ bbfs_section top_digits_set @ mirror_heading
                 in case py_map_exc mirror_str top_digits_set of
                      Inl e \<Rightarrow> Inl e
                    | Inr mirror_digits \<Rightarrow>
                        (let pesan_hasil = pesan_hasil @ mirror_line mirror_digits;
                             pair_counter = hitung_angka_ikut history;
                             pesan_hasil = (if pair_counter \<noteq> []
                                            then pesan_hasil @ pairs_section (most_common pair_counter 5)
                                            else pesan_hasil)
                         in Inr (pesan_hasil @ disclaimer))))))"

subsection \<open>The ranked digits, the BBFS string and its mirror\<close>

definition ranked_digits :: "history \<Rightarrow> int \<Rightarrow> (int \<times> nat) list" where
  "ranked_digits history top_n = most_common (Counter (fst (analisis_digit history))) top_n"
  \<comment> \<open>\<open>angka_teratas\<close>, lines 80 to 85\<close>

definition bbfs_string :: "history \<Rightarrow> int \<Rightarrow> string" where
  "bbfs_string history top_n = concat (map (\<lambda>d. py_str_int (fst d)) (ranked_digits history top_n))"
  \<comment> \<open>\<open>''.join(top_digits_set)\<close>, lines 93 and 95\<close>

definition mirror_string :: "history \<Rightarrow> int \<Rightarrow> string" where
  "mirror_string history top_n =
     concat (map (\<lambda>d. py_str_int (mirror_get (fst d))) (ranked_digits history top_n))"
  \<comment> \<open>\<open>''.join(mirror_digits)\<close>, lines 98 and 99\<close>

definition mirror_char :: "char \<Rightarrow> char" where
  "mirror_char c = (case py_int_char c of None \<Rightarrow> c | Some d \<Rightarrow> digit_char (nat ((d + 5) mod 10)))"
  \<comment> \<open>specification: the partner of a digit character\<close>

subsection \<open>Lemmas\<close>

lemma py_str_int_digit: "0 \<le> d \<Longrightarrow> d \<le> 9 \<Longrightarrow> py_str_int d = [digit_char (nat d)]"
  by (simp add: py_str_int_def py_str_nat.simps)

lemma ranked_digits_range: "x \<in> set (ranked_digits h n) \<Longrightarrow> 0 \<le> fst x \<and> fst x \<le> 9"
proof -
  assume "x \<in> set (ranked_digits h n)"
  then have "fst x \<in> fst ` set (Counter (digits_of h))"
    using set_most_common by (fastforce simp: ranked_digits_def fst_analisis_digit)
  then have "fst x \<in> set (digits_of h)" by (simp add: set_keys_Counter)
  then show ?thesis using digits_of_range [of h] by (meson atLeastAtMost_iff subsetD)
qed

lemma length_Counter: "length (Counter xs) = card (set xs)"
  by (metis keys_Counter length_map length_remdups_card_conv length_rev set_rev)

lemma length_ranked_digits: "length (ranked_digits h n) \<le> 10"
proof -
  have "length (ranked_digits h n) \<le> length (Counter (digits_of h))"
    by (simp add: ranked_digits_def fst_analisis_digit length_most_common)
  also have "\<dots> = card (set (digits_of h))" by (rule length_Counter)
  also have "\<dots> \<le> card {0..9::int}" using digits_of_range by (intro card_mono) simp_all
  finally show ?thesis by simp
qed

lemma mirror_str_digit: "mirror_str (py_str_int d) = Inr (py_str_int (mirror_get d))"
  by (simp add: mirror_str_def)

lemma generate_report:
  assumes "digits_of history \<noteq> []"
  shows "generate_bbfs_prediktif history top_n =
    Inr (header_text history @ top_heading (ranked_digits history top_n)
         @ concat (map digit_line (ranked_digits history top_n))
         @ bbfs_section (map (\<lambda>d. py_str_int (fst d)) (ranked_digits history top_n))
         @ mirror_heading @ ''   `'' @ mirror_string history top_n @ ''`'' @ nl
         @ (if hitung_angka_ikut history \<noteq> []
            then pairs_section (most_common (hitung_angka_ikut history) 5) else [])
         @ disclaimer)"
proof -
  have fst: "fst (analisis_digit history) = digits_of history" by (rule fst_analisis_digit)
  obtain sd pd where ad: "analisis_digit history = (sd, pd)" by (cases "analisis_digit history")
  with fst have sd: "sd = digits_of history" by simp
  have ne: "history \<noteq> []" using assms by (auto simp: digits_of_def)
  have mir: "py_map_exc mirror_str (map (\<lambda>d. py_str_int (fst d)) (ranked_digits history top_n))
      = Inr (map (\<lambda>d. py_str_int (mirror_get (fst d))) (ranked_digits history top_n))"
    by (rule py_map_exc_map) (rule mirror_str_digit)
  show ?thesis
    using assms ne mir
    by (simp add: generate_bbfs_prediktif_def ad sd ranked_digits_def fst mirror_line_def
        mirror_string_def Let_def)
qed

lemma generate_early:
  "history = [] \<or> digits_of history = [] \<Longrightarrow>
   generate_bbfs_prediktif history top_n =
     Inr (if history = [] then msg_empty_history else msg_no_digits)"
  by (auto simp: generate_bbfs_prediktif_def fst_analisis_digit [symmetric] split: prod.splits)

lemma generate_Inr: "\<exists>s. generate_bbfs_prediktif history top_n = Inr s"
proof (cases "history = [] \<or> digits_of history = []")
  case True
  then show ?thesis using generate_early by blast
next
  case False
  then show ?thesis using generate_report by blast
qed

lemma ranked_digit_str:
  "x \<in> set (ranked_digits h n) \<Longrightarrow> py_str_int (fst x) = [digit_char (nat (fst x))]"
  using ranked_digits_range [of x h n] by (simp add: py_str_int_digit)

lemma ranked_digits_Counter:
  "ranked_digits h n = most_common (map (\<lambda>d. (d, count_list (digits_of h) d)) (rev (remdups (rev (digits_of h))))) n"
  by (simp add: ranked_digits_def fst_analisis_digit Counter_eq)

lemma decode_digit_strings:
  "\<forall>kv\<in>set xs. 0 \<le> fst kv \<and> fst kv \<le> (9::int) \<Longrightarrow>
   map py_int_char (concat (map (\<lambda>d. py_str_int (fst d)) xs)) = map (\<lambda>kv. Some (fst kv)) xs"
  by (induction xs) (auto simp: py_str_int_digit py_int_char_digit_char)

subsection \<open>Properties of the report\<close>

text \<open>C1: on an empty history the report is exactly the empty-data message,
  whatever \<open>top_n\<close> is.\<close>

theorem generate_empty_history: "generate_bbfs_prediktif [] top_n = Inr msg_empty_history"
  by (simp add: generate_bbfs_prediktif_def)

text \<open>C2: on a non-empty history the report is the no-digits message exactly when no
  character of the history is a decimal digit.\<close>

theorem generate_no_digits_iff:
  assumes "history \<noteq> []"
  shows "generate_bbfs_prediktif history top_n = Inr msg_no_digits \<longleftrightarrow> digits_of history = []"
proof
  assume gen: "generate_bbfs_prediktif history top_n = Inr msg_no_digits"
  show "digits_of history = []"
  proof (rule ccontr)
    assume "digits_of history \<noteq> []"
    from generate_report [OF this, of top_n] gen
    show False by (simp add: header_text_def fire_emoji_def msg_no_digits_def)
  qed
next
  assume "digits_of history = []"
  with assms show "generate_bbfs_prediktif history top_n = Inr msg_no_digits"
    by (simp add: generate_early)
qed

theorem generate_no_digits_iff_witness:
  "[''abc'', ''xyz''] \<noteq> [] \<and> generate_bbfs_prediktif [''abc'', ''xyz''] 7 = Inr msg_no_digits"
proof -
  have "digits_of [''abc'', ''xyz''] = []" by (simp add: digits_of_def py_int_char_def)
  then show ?thesis using generate_no_digits_iff [of "[''abc'', ''xyz'']" 7] by simp
qed

text \<open>C3: the generator never raises: the \<open>int()\<close> calls inside
  \<open>mirror_number\<close> only ever see the string of a ranked digit.\<close>

theorem generate_never_raises: "\<exists>s. generate_bbfs_prediktif history top_n = Inr s"
  by (rule generate_Inr)

text \<open>C4: when the history has a digit, the report is the header, the ranked digits
  with their counts, the BBFS string, the mirror string, the pair section when the
  pair counter is non-empty, and the disclaimer, in this order.\<close>

theorem generate_report_text:
  assumes "digits_of history \<noteq> []"
  shows "generate_bbfs_prediktif history top_n =
    Inr (header_text history @ top_heading (ranked_digits history top_n)
         @ concat (map digit_line (ranked_digits history top_n))
         @ nl @ keycap (CHR ''2'') @ '' *Rekomendasi BBFS ''
         @ py_str_nat (length (ranked_digits history top_n)) @ '' Digit:*'' @ nl
         @ ''   `'' @ bbfs_string history top_n @ ''`'' @ nl
         @ mirror_heading @ ''   `'' @ mirror_string history top_n @ ''`'' @ nl
         @ (if hitung_angka_ikut history \<noteq> []
            then pairs_section (most_common (hitung_angka_ikut history) 5) else [])
         @ disclaimer)"
  using generate_report [OF assms, of top_n] by (simp add: bbfs_section_def bbfs_string_def)

theorem generate_report_text_witness:
  "digits_of [''12''] \<noteq> [] \<and>
   (\<exists>body. generate_bbfs_prediktif [''12''] 7 = Inr (header_text [''12''] @ body @ disclaimer))"
proof -
  have d: "digits_of [''12''] \<noteq> []" by (simp add: digits_of_def py_int_char_def)
  show ?thesis using d generate_report_text [OF d, of 7] by auto
qed

text \<open>C5: the mirror string is the BBFS string mirrored character by character, so
  the two have the same length and correspond position by position.\<close>

theorem mirror_string_bbfs: "mirror_string history top_n = map mirror_char (bbfs_string history top_n)"
proof -
  have "py_str_int (mirror_get (fst x)) = map mirror_char (py_str_int (fst x))"
    if "x \<in> set (ranked_digits history top_n)" for x
  proof -
    from ranked_digits_range [OF that] have r: "0 \<le> fst x" "fst x \<le> 9" by auto
    then have "0 \<le> (fst x + 5) mod 10" "(fst x + 5) mod 10 \<le> 9" by auto
    with r show ?thesis
      by (simp add: py_str_int_digit mirror_get_digit mirror_char_def py_int_char_digit_char nat_less_iff)
  qed
  then show ?thesis
    by (simp add: mirror_string_def bbfs_string_def map_concat comp_def cong: map_cong)
qed

text \<open>C6: for a positive \<open>top_n\<close> the BBFS string has one character per ranked
  digit: \<open>top_n\<close> of them, or all distinct digits of the history when there are
  fewer, without padding.\<close>

theorem bbfs_string_length:
  assumes "0 < top_n"
  shows "length (bbfs_string history top_n) = min (nat top_n) (card (set (digits_of history)))"
proof -
  have "length (bbfs_string history top_n) = length (ranked_digits history top_n)"
    by (simp add: bbfs_string_def length_concat comp_def ranked_digit_str sum_list_triv cong: map_cong)
  also have "\<dots> = min (nat top_n) (card (set (digits_of history)))"
    using assms by (simp add: ranked_digits_def length_most_common length_Counter fst_analisis_digit)
  finally show ?thesis .
qed

theorem bbfs_string_length_witness: "0 < (7::int) \<and> length (bbfs_string [''1''] 7) = 1"
proof -
  have "card (set (digits_of [''1''])) = 1" by (simp add: digits_of_def py_int_char_def)
  then show ?thesis using bbfs_string_length [of 7 "[''1'']"] by simp
qed

text \<open>C32: the ranked digits \<open>angka_teratas\<close> are well formed whatever the
  history and \<open>top_n\<close>: distinct digits from 0 to 9, each with a positive count,
  at most ten of them.\<close>

theorem ranked_digits_wf:
  "counter_wf (ranked_digits history top_n) \<and> fst ` set (ranked_digits history top_n) \<subseteq> {0..9}
   \<and> length (ranked_digits history top_n) \<le> 10"
  using counter_wf_most_common [OF counter_wf_Counter] ranked_digits_range [of _ history top_n]
    length_ranked_digits [of history top_n]
  by (auto simp: ranked_digits_def)

theorem ranked_digits_wf_witness:
  "ranked_digits [''1'', ''31''] 7 = [(1, 2), (3, 1)] \<and> counter_wf (ranked_digits [''1'', ''31''] 7)"
proof -
  have "ranked_digits [''1'', ''31''] 7 = [(1, 2), (3, 1)]" by code_simp
  then show ?thesis using ranked_digits_wf [of "[''1'', ''31'']" 7] by simp
qed

text \<open>C13: the ranking \<open>angka_teratas\<close> lists the digits in descending order of
  their number of occurrences in the history, and digits with the same count in
  the order of their first occurrence (the order \<open>Counter\<close> keeps and
  \<open>most_common\<close> preserves).\<close>

theorem ranked_digits_order:
  "sorted_wrt (\<lambda>a b. snd b \<le> snd a) (ranked_digits history top_n)
   \<and> (\<forall>m. \<exists>k. filter (\<lambda>kv. snd kv = m) (ranked_digits history top_n)
        = take k (filter (\<lambda>kv. snd kv = m)
                   (map (\<lambda>d. (d, count_list (digits_of history) d)) (rev (remdups (rev (digits_of history)))))))"
  by (simp add: ranked_digits_Counter sorted_most_common most_common_ties)

text \<open>C14: for a positive \<open>top_n\<close> the ranking is the top \<open>top_n\<close> by count: it has
  \<open>min(top_n, number of distinct digits)\<close> entries, each with the exact number of
  occurrences of its digit, and no digit of the history left out of it occurs more
  often than a digit listed.\<close>

theorem ranked_digits_top:
  assumes "0 < top_n"
  shows "length (ranked_digits history top_n) = min (nat top_n) (card (set (digits_of history)))
    \<and> (\<forall>kv\<in>set (ranked_digits history top_n). snd kv = count_list (digits_of history) (fst kv))
    \<and> (\<forall>d\<in>set (digits_of history). d \<notin> fst ` set (ranked_digits history top_n) \<longrightarrow>
         (\<forall>kv\<in>set (ranked_digits history top_n). count_list (digits_of history) d \<le> snd kv))"
proof (intro conjI ballI impI)
  let ?c = "map (\<lambda>d. (d, count_list (digits_of history) d)) (rev (remdups (rev (digits_of history))))"
  show "length (ranked_digits history top_n) = min (nat top_n) (card (set (digits_of history)))"
    using assms by (simp add: ranked_digits_Counter length_most_common length_remdups_card_conv)
  fix kv assume kv: "kv \<in> set (ranked_digits history top_n)"
  then have c: "kv \<in> set ?c" using set_most_common by (fastforce simp: ranked_digits_Counter)
  then show "snd kv = count_list (digits_of history) (fst kv)" by auto
  fix d assume d: "d \<in> set (digits_of history)" and out: "d \<notin> fst ` set (ranked_digits history top_n)"
  have "(d, count_list (digits_of history) d) \<in> set ?c" using d by simp
  moreover have "(d, count_list (digits_of history) d) \<notin> set (ranked_digits history top_n)"
    using out by force
  ultimately show "count_list (digits_of history) d \<le> snd kv"
    using most_common_top kv by (fastforce simp: ranked_digits_Counter)
qed

theorem ranked_digits_top_witness:
  "0 < (1::int) \<and> ranked_digits [''1'', ''31''] 1 = [(1, 2)] \<and> count_list (digits_of [''1'', ''31'']) 1 = 2"
proof -
  have r: "ranked_digits [''1'', ''31''] 1 = [(1, 2)]" by code_simp
  have "\<forall>kv\<in>set (ranked_digits [''1'', ''31''] 1). snd kv = count_list (digits_of [''1'', ''31'']) (fst kv)"
    using ranked_digits_top [of 1 "[''1'', ''31'']"] by simp
  with r show ?thesis by simp
qed

text \<open>C15: the BBFS string of the report reads back as the ranked digits: it has
  one character per ranked digit, and \<open>int()\<close> of each character is that digit.\<close>

theorem bbfs_string_roundtrip:
  "map py_int_char (bbfs_string history top_n) = map (\<lambda>kv. Some (fst kv)) (ranked_digits history top_n)"
  unfolding bbfs_string_def using ranked_digits_range by (intro decode_digit_strings) blast

end
