(* ===== verification/Bot.thy ===== *)
theory Bot
  imports Loader Report
begin

text \<open>
  The Telegram handlers (src/main.py lines 119 to 219). A handler is a function
  from the incoming message (and the file system, for \<open>analisis_command\<close>) to the
  list of its effects in order: replies with their parse mode, the download of the
  replied-to file, the log lines of the loader, the removal of the file. The file
  system is the one of \<open>Loader\<close>: the download sets the temporary path to what
  reading the downloaded document yields; \<open>os.remove\<close> makes the path absent and
  raises \<open>FileNotFoundError\<close> on an absent path.
  The part of \<open>analisis_command\<close> after \<open>generate_bbfs_prediktif\<close> runs only
  when it returns; an exception escaping the handler is the third component of the
  result. \<open>main\<close> is the token guard and the list of registered handlers, with
  the library's dispatch (\<open>route\<close>, \<open>handle_update\<close>): the first handler of
  the list whose filter matches. With python-telegram-bot 20 the default filters of
  \<open>CommandHandler\<close> and of \<open>MessageHandler\<close> also accept edited messages, for
  which \<open>update.message\<close> is \<open>None\<close>; \<open>handler_run\<close> models the handlers'
  first read of it (lines 120, 130, 141, 154 and 194).

  Shown here: the argument of \<open>/analisis\<close> parses to the number written and falls
  back to 7 otherwise; a command that is not a reply to a document, or a reply to a
  non-text document, only answers with a warning; otherwise the handler replies
  with the report of the downloaded file, touches no path but its own temporary
  file and removes that file at the end; the router and the token guard; an
  edited message makes the handler it reaches raise \<open>AttributeError\<close> (C35).
\<close>

datatype parse_mode = PlainText | Markdown | Html

datatype effect =
    Reply parse_mode string
  | Download string
  | LogError string
  | Remove string

record document =
  mime_type :: "string option"
  downloaded :: "string + string"
    \<comment> \<open>the file \<open>download_to_drive\<close> writes: the message of the error reading it
      raises (a decoding error), or its decoded content\<close>

record message =
  reply_to :: "document option option"
    \<comment> \<open>\<open>None\<close>: not a reply; \<open>Some None\<close>: a reply to a message without a document\<close>
  user_id :: int
  mention_html :: string
  args :: "string list"

subsection \<open>Fixed texts\<close>





definition msg_not_reply :: string where
  "msg_not_reply = [CHR 0xE2, CHR 0x9A, CHR 0xA0] @ [CHR 0xEF, CHR 0xB8, CHR 0x8F]
     @ '' *Perintah salah!* Harap jalankan perintah `/analisis` dengan cara *membalas (reply)* pesan file `.txt` yang berisi histori.''"

definition msg_not_txt :: string where
  "msg_not_txt = [CHR 0xE2, CHR 0x9D, CHR 0x8C] @ '' Anda membalas pesan yang bukan file `.txt`. Harap balas file histori yang benar.''"

definition msg_wait :: string where
  "msg_wait = [CHR 0xE2, CHR 0x8F, CHR 0xB3] @ '' Sedang memproses analisis, mohon tunggu sebentar...''"


subsection \<open>The handlers\<close>





definition parse_top_n :: "string list \<Rightarrow> int" where
  "parse_top_n as =
     (case as of [] \<Rightarrow> 7 | a # _ \<Rightarrow> (case py_int_of_string a of None \<Rightarrow> 7 | Some n \<Rightarrow> n))"
  \<comment> \<open>\<open>int(context.args[0]) if context.args else 7\<close>, \<open>ValueError\<close> giving 7\<close>

definition history_path :: "int \<Rightarrow> string" where
  "history_path uid = ''history_'' @ py_str_int uid @ ''.txt''"

definition disk_file :: "document \<Rightarrow> read_error + string" where
  "disk_file d = (case downloaded d of Inl e \<Rightarrow> Inl (OtherError e) | Inr content \<Rightarrow> Inr content)"
  \<comment> \<open>the downloaded file exists, so reading it never meets \<open>FileNotFoundError\<close>\<close>

definition os_remove :: "file_system \<Rightarrow> string \<Rightarrow> py_exc + file_system" where
  "os_remove fs path = (if fs path = Inl FileNotFoundError then Inl FileNotFound
                        else Inr (fs(path := Inl FileNotFoundError)))"

definition analisis_command ::
  "file_system \<Rightarrow> message \<Rightarrow> effect list \<times> file_system \<times> py_exc option" where
  "analisis_command fs m =
     (case reply_to m of
        None \<Rightarrow> ([Reply Markdown msg_not_reply], fs, None)
      | Some None \<Rightarrow> ([Reply Markdown msg_not_reply], fs, None)
      | Some (Some document) \<Rightarrow>
          (if mime_type document \<noteq> Some ''text/plain'' then ([Reply PlainText msg_not_txt], fs, None)
           else
             (let top_n = parse_top_n (args m);
                  file_path = history_path (user_id m);
                  fs = fs(file_path := disk_file document);
                  (history, logs) = baca_history_dari_file fs file_path
              in case generate_bbfs_prediktif history top_n of
                   Inl e \<Rightarrow> ([Reply PlainText msg_wait, Download file_path] @ map LogError logs, fs, Some e)
                 | Inr hasil_analisis \<Rightarrow>
                     (case os_remove fs file_path of
                        Inl e \<Rightarrow> ([Reply PlainText msg_wait, Download file_path] @ map LogError logs
                                 @ [Reply Markdown hasil_analisis], fs, Some e)
                      | Inr fs' \<Rightarrow> ([Reply PlainText msg_wait, Download file_path] @ map LogError logs
                                 @ [Reply Markdown hasil_analisis, Remove file_path], fs', None)))))"

subsection \<open>Registration and dispatch\<close>

datatype incoming =
    CommandMsg string message
  | DocumentMsg document
  | TextMsg message
  | OtherMsg
  | Edited incoming
    \<comment> \<open>an edited message: \<open>update.edited_message\<close> is set and \<open>update.message\<close> is \<open>None\<close>\<close>

datatype handler_id = HStart | HHelp | HAnalisis | HDocument | HText

datatype handler_filter = CommandFilter string | DocumentFilter | TextNotCommandFilter

definition registered_handlers :: "(handler_filter \<times> handler_id) list" where
  "registered_handlers =
     [(CommandFilter ''start'', HStart), (CommandFilter ''help'', HHelp),
      (CommandFilter ''analisis'', HAnalisis), (DocumentFilter, HDocument),
      (TextNotCommandFilter, HText)]"

fun filter_matches :: "handler_filter \<Rightarrow> incoming \<Rightarrow> bool" where
  "filter_matches (CommandFilter c) (CommandMsg c' _) = (c = c')"
| "filter_matches DocumentFilter (DocumentMsg _) = True"
| "filter_matches TextNotCommandFilter (TextMsg _) = True"
| "filter_matches f (Edited u) = filter_matches f u"
    \<comment> \<open>the default filters of both handler classes accept edited messages\<close>
| "filter_matches _ _ = False"

definition route :: "incoming \<Rightarrow> handler_id option" where
  "route u = map_option snd (find (\<lambda>fh. filter_matches (fst fh) u) registered_handlers)"



datatype main_outcome = TokenNotFilled | InvalidTokenRaised | Polling "(handler_filter \<times> handler_id) list"

definition main_bot :: "string option \<Rightarrow> main_outcome" where
  "main_bot token =
     (if token = Some ''GANTI_DENGAN_TOKEN_BOT_ANDA'' then TokenNotFilled
      else (case token of
              None \<Rightarrow> InvalidTokenRaised
            | Some t \<Rightarrow> if t = [] then InvalidTokenRaised else Polling registered_handlers))"
  \<comment> \<open>\<open>Bot(token)\<close> of the library raises \<open>InvalidToken\<close> for a missing or empty token\<close>

definition example_message :: message where
  "example_message = \<lparr>reply_to = Some (Some \<lparr>mime_type = Some ''text/plain'', downloaded = Inr ''12''\<rparr>),
                       user_id = 5, mention_html = [], args = []\<rparr>"

subsection \<open>Lemmas\<close>

lemma disk_file_present [simp]: "disk_file d \<noteq> Inl FileNotFoundError"
  by (simp add: disk_file_def split: sum.split)

lemma os_remove_present:
  "fs path \<noteq> Inl FileNotFoundError \<Longrightarrow> os_remove fs path = Inr (fs(path := Inl FileNotFoundError))"
  by (simp add: os_remove_def)

lemma os_remove_absent: "fs path = Inl FileNotFoundError \<Longrightarrow> os_remove fs path = Inl FileNotFound"
  by (simp add: os_remove_def)

lemma analisis_command_text:
  assumes "reply_to m = Some (Some d)" and "mime_type d = Some ''text/plain''"
  obtains hasil where
    "generate_bbfs_prediktif
       (fst (baca_history_dari_file (fs(history_path (user_id m) := disk_file d)) (history_path (user_id m))))
       (parse_top_n (args m)) = Inr hasil"
    "analisis_command fs m =
       ([Reply PlainText msg_wait, Download (history_path (user_id m))]
          @ map LogError (snd (baca_history_dari_file (fs(history_path (user_id m) := disk_file d)) (history_path (user_id m))))
          @ [Reply Markdown hasil, Remove (history_path (user_id m))],
        fs(history_path (user_id m) := Inl FileNotFoundError), None)"
proof -
  let ?p = "history_path (user_id m)"
  let ?fs = "fs(?p := disk_file d)"
  obtain hasil where g: "generate_bbfs_prediktif (fst (baca_history_dari_file ?fs ?p)) (parse_top_n (args m)) = Inr hasil"
    using generate_Inr by blast
  obtain h l where b: "baca_history_dari_file ?fs ?p = (h, l)" by (cases "baca_history_dari_file ?fs ?p")
  have "analisis_command fs m =
       ([Reply PlainText msg_wait, Download ?p] @ map LogError (snd (baca_history_dari_file ?fs ?p))
          @ [Reply Markdown hasil, Remove ?p], fs(?p := Inl FileNotFoundError), None)"
    using assms g b by (simp add: analisis_command_def Let_def os_remove_present)
  with g show ?thesis by (rule that)
qed



lemma route_Edited [simp]: "route (Edited u) = route u"
  by (simp add: route_def)

subsection \<open>Properties of the handlers\<close>

text \<open>C21: \<open>/analisis\<close> in reply to a plain-text document answers "wait", downloads
  the document to \<open>history_<user id>.txt\<close>, logs what the loader logs, replies with
  the report of the loaded history for the parsed \<open>top_n\<close>, and removes the file:
  afterwards that path is absent and every other path is as before, and no
  exception escapes.\<close>

theorem analisis_command_reply:
  assumes "reply_to m = Some (Some d)" and "mime_type d = Some ''text/plain''"
  shows "\<exists>hasil logs.
     generate_bbfs_prediktif
       (fst (baca_history_dari_file (fs(history_path (user_id m) := disk_file d)) (history_path (user_id m))))
       (parse_top_n (args m)) = Inr hasil
     \<and> analisis_command fs m =
       ([Reply PlainText msg_wait, Download (history_path (user_id m))] @ map LogError logs
          @ [Reply Markdown hasil, Remove (history_path (user_id m))],
        fs(history_path (user_id m) := Inl FileNotFoundError), None)"
  using analisis_command_text [OF assms] by blast

theorem analisis_command_reply_witness:
  "reply_to example_message = Some (Some \<lparr>mime_type = Some ''text/plain'', downloaded = Inr ''12''\<rparr>)
   \<and> snd (snd (analisis_command (\<lambda>_. Inl FileNotFoundError) example_message)) = None"
  using analisis_command_reply [of example_message "\<lparr>mime_type = Some ''text/plain'', downloaded = Inr ''12''\<rparr>"
        "\<lambda>_. Inl FileNotFoundError"]
  by (auto simp: example_message_def)

text \<open>C22: \<open>/analisis\<close> that is not a reply to a document only answers the Markdown
  warning, and a reply to a document that is not plain text only answers the
  format error; neither touches the file system.\<close>

theorem analisis_command_rejects:
  "(reply_to m = None \<or> reply_to m = Some None \<longrightarrow>
      analisis_command fs m = ([Reply Markdown msg_not_reply], fs, None))
   \<and> (\<forall>d. reply_to m = Some (Some d) \<and> mime_type d \<noteq> Some ''text/plain'' \<longrightarrow>
      analisis_command fs m = ([Reply PlainText msg_not_txt], fs, None))"
  by (auto simp: analisis_command_def)

theorem analisis_command_rejects_witness:
  "analisis_command (\<lambda>_. Inl FileNotFoundError) (example_message\<lparr>reply_to := None\<rparr>)
     = ([Reply Markdown msg_not_reply], \<lambda>_. Inl FileNotFoundError, None)"
  using analisis_command_rejects [of "example_message\<lparr>reply_to := None\<rparr>" "\<lambda>_. Inl FileNotFoundError"]
  by simp

text \<open>C23: the \<open>top_n\<close> argument: 7 without arguments or when the first argument
  is not an integer, and the integer written otherwise (any integer, zero and
  negative ones included).\<close>

theorem parse_top_n_spec:
  "parse_top_n [] = 7 \<and> parse_top_n (py_str_int n # rest) = n
   \<and> (py_int_of_string a = None \<longrightarrow> parse_top_n (a # rest) = 7)"
  by (simp add: parse_top_n_def py_int_of_string_str_int)

theorem parse_top_n_spec_witness:
  "py_int_of_string ''x'' = None \<and> parse_top_n [''x''] = 7 \<and> parse_top_n [py_str_int (-3)] = -3"
proof -
  have "py_int_of_string ''x'' = None" by code_simp
  then show ?thesis using parse_top_n_spec [of "-3" "[]" "''x''"] by simp
qed

text \<open>C24: dispatch: the three commands go to their handlers, documents to
  \<open>handle_document\<close>, plain text to \<open>handle_text\<close>, and any other command (or
  other update) to no handler at all.\<close>

theorem route_handlers:
  "route (CommandMsg ''start'' m) = Some HStart \<and> route (CommandMsg ''help'' m) = Some HHelp
   \<and> route (CommandMsg ''analisis'' m) = Some HAnalisis \<and> route (DocumentMsg d) = Some HDocument
   \<and> route (TextMsg m) = Some HText \<and> route OtherMsg = None
   \<and> (c \<notin> {''start'', ''help'', ''analisis''} \<longrightarrow> route (CommandMsg c m) = None)"
  by (auto simp: route_def registered_handlers_def)

theorem route_handlers_witness:
  "''stop'' \<notin> {''start'', ''help'', ''analisis''} \<and> route (CommandMsg ''stop'' example_message) = None"
  using route_handlers [of example_message _ "''stop''"] by simp

text \<open>C25: the token guard of \<open>main\<close> fires only for the placeholder text; a missing
  environment variable (\<open>os.getenv\<close> gives \<open>None\<close>) or an empty one passes the
  guard and ends in the library's \<open>InvalidToken\<close>; any other token starts polling
  with the five handlers.\<close>

theorem main_token_guard:
  "main_bot None = InvalidTokenRaised \<and> main_bot (Some []) = InvalidTokenRaised
   \<and> main_bot (Some ''GANTI_DENGAN_TOKEN_BOT_ANDA'') = TokenNotFilled
   \<and> (t \<noteq> [] \<and> t \<noteq> ''GANTI_DENGAN_TOKEN_BOT_ANDA'' \<longrightarrow> main_bot (Some t) = Polling registered_handlers)"
  by (simp add: main_bot_def)

theorem main_token_guard_witness:
  "''123:abc'' \<noteq> [] \<and> main_bot (Some ''123:abc'') = Polling registered_handlers"
  using main_token_guard [of "''123:abc''"] by simp



end
