(* ===== verification/Session.thy ===== *)
theory Session
  imports Bot
begin

text \<open>
  The processing of \<open>/analisis\<close> updates over time. \<open>analisis_command\<close>
  (src/main.py lines 152 to 190) can let other tasks run at its awaits: the "wait"
  reply (line 175), \<open>get_file\<close> (line 178), the network transfer of
  \<open>download_to_drive\<close> (line 180) and the reply with the report (line 187);
  \<open>os.remove\<close> (line 190) follows the last one. \<open>run_step\<close> runs one segment
  between two of these points, and the locals the frame keeps across them
  (\<open>document\<close>, \<open>top_n\<close>, \<open>file_path\<close>) are arguments of the \<open>phase\<close>.
  The library writes the downloaded file after its last await and the handler
  reads it as soon as the call returns, with no await in between, so the write,
  the loader and the generator belong to one segment.

  python-telegram-bot processes one update at a time unless the application is
  built with concurrent updates, and \<open>main\<close> keeps the default: this is
  \<open>process_sequential\<close>. The concurrent mode is the step relation
  \<open>sched_step\<close>: any unfinished task runs its next segment on the shared disk;
  \<open>run_schedule\<close> runs a given list of task indices.

  Shown here: requests of distinct users never interfere (C28, by an invariant proved by rule induction); two
  requests of one user can interleave so that the second \<open>os.remove\<close> raises
  \<open>FileNotFoundError\<close> (C29); processed one at a time, as configured, no request
  raises and no temporary file is left behind (C30).
\<close>

datatype phase =
    Start  \<comment> \<open>before the first statement of the handler\<close>
  | Waited document int  \<comment> \<open>at \<open>await reply_text(wait)\<close>, line 175\<close>
  | GotFile document int  \<comment> \<open>at \<open>await document.get_file()\<close>, line 178\<close>
  | Replied string  \<comment> \<open>at \<open>await reply_text(hasil_analisis)\<close>, line 187, with \<open>file_path\<close>\<close>
  | Done  \<comment> \<open>returned\<close>
  | Raised py_exc  \<comment> \<open>an exception escaped the handler\<close>

fun finished :: "phase \<Rightarrow> bool" where
  "finished Done = True"
| "finished (Raised _) = True"
| "finished _ = False"

fun outcome_exc :: "phase \<Rightarrow> py_exc option" where
  "outcome_exc (Raised e) = Some e"
| "outcome_exc _ = None"

definition run_step :: "file_system \<Rightarrow> message \<Rightarrow> phase \<Rightarrow> effect list \<times> file_system \<times> phase" where
  "run_step fs m ph =
     (case ph of
        Start \<Rightarrow>
          (case reply_to m of
             None \<Rightarrow> ([Reply Markdown msg_not_reply], fs, Done)
           | Some None \<Rightarrow> ([Reply Markdown msg_not_reply], fs, Done)
           | Some (Some document) \<Rightarrow>
               (if mime_type document \<noteq> Some ''text/plain'' then ([Reply PlainText msg_not_txt], fs, Done)
                else ([Reply PlainText msg_wait], fs, Waited document (parse_top_n (args m)))))
      | Waited document top_n \<Rightarrow> ([], fs, GotFile document top_n)
      | GotFile document top_n \<Rightarrow>
          (let file_path = history_path (user_id m);
               fs = fs(file_path := disk_file document);
               (history, logs) = baca_history_dari_file fs file_path
           in case generate_bbfs_prediktif history top_n of
                Inl e \<Rightarrow> ([Download file_path] @ map LogError logs, fs, Raised e)
              | Inr hasil_analisis \<Rightarrow>
                  ([Download file_path] @ map LogError logs @ [Reply Markdown hasil_analisis], fs,
                   Replied file_path))
      | Replied file_path \<Rightarrow>
          (case os_remove fs file_path of
             Inl e \<Rightarrow> ([], fs, Raised e)
           | Inr fs' \<Rightarrow> ([Remove file_path], fs', Done))
      | Done \<Rightarrow> ([], fs, Done)
      | Raised e \<Rightarrow> ([], fs, Raised e))"

record sched_state =
  disk :: file_system
  tasks :: "(message \<times> phase) list"
  sent :: "(nat \<times> effect) list"

definition init_sched :: "file_system \<Rightarrow> message list \<Rightarrow> sched_state" where
  "init_sched fs ms = \<lparr>disk = fs, tasks = map (\<lambda>m. (m, Start)) ms, sent = []\<rparr>"

definition step_task :: "nat \<Rightarrow> sched_state \<Rightarrow> sched_state" where
  "step_task i s =
     (let (m, ph) = tasks s ! i;
          (es, fs', ph') = run_step (disk s) m ph
      in s\<lparr>disk := fs', tasks := (tasks s)[i := (m, ph')], sent := sent s @ map (Pair i) es\<rparr>)"

inductive sched_step :: "sched_state \<Rightarrow> sched_state \<Rightarrow> bool" where
  step: "i < length (tasks s) \<Longrightarrow> \<not> finished (snd (tasks s ! i)) \<Longrightarrow> sched_step s (step_task i s)"

fun run_schedule :: "nat list \<Rightarrow> sched_state \<Rightarrow> sched_state option" where
  "run_schedule [] s = Some s"
| "run_schedule (i # is) s =
     (if i < length (tasks s) \<and> \<not> finished (snd (tasks s ! i)) then run_schedule is (step_task i s) else None)"

definition seq_step ::
  "message \<Rightarrow> (effect list \<times> py_exc option) list \<times> file_system \<Rightarrow> (effect list \<times> py_exc option) list \<times> file_system" where
  "seq_step m st = (case st of (outs, fs) \<Rightarrow>
     (case analisis_command fs m of (es, fs', exc) \<Rightarrow> (outs @ [(es, exc)], fs')))"

definition process_sequential ::
  "file_system \<Rightarrow> message list \<Rightarrow> (effect list \<times> py_exc option) list \<times> file_system" where
  "process_sequential fs ms = fold seq_step ms ([], fs)"

definition is_text_reply :: "message \<Rightarrow> bool" where
  "is_text_reply m = (case reply_to m of Some (Some d) \<Rightarrow> mime_type d = Some ''text/plain'' | _ \<Rightarrow> False)"
  \<comment> \<open>the two guards of \<open>analisis_command\<close> pass\<close>

definition temp_paths :: "message list \<Rightarrow> string list" where
  "temp_paths ms = [history_path (user_id m). m \<leftarrow> ms, is_text_reply m]"

definition task_inv :: "file_system \<Rightarrow> message \<times> phase \<Rightarrow> bool" where
  "task_inv fs mp =
     (case snd mp of
        Waited d _ \<Rightarrow> reply_to (fst mp) = Some (Some d)
      | GotFile d _ \<Rightarrow> reply_to (fst mp) = Some (Some d)
      | Replied p \<Rightarrow> p = history_path (user_id (fst mp))
          \<and> (case reply_to (fst mp) of Some (Some d) \<Rightarrow> fs p = disk_file d | _ \<Rightarrow> False)
      | Raised e \<Rightarrow> False
      | _ \<Rightarrow> True)"

definition sched_inv :: "sched_state \<Rightarrow> bool" where
  "sched_inv s = (\<forall>i<length (tasks s). task_inv (disk s) (tasks s ! i))"

lemma run_step_other: "q \<noteq> history_path (user_id m) \<Longrightarrow> (\<And>p. ph = Replied p \<Longrightarrow> p = history_path (user_id m)) \<Longrightarrow>
   fst (snd (run_step fs m ph)) q = fs q"
  by (cases ph) (auto simp: run_step_def Let_def os_remove_def split: option.split sum.split prod.split)

lemma run_step_Start_text:
  "reply_to m = Some (Some d) \<Longrightarrow> mime_type d = Some ''text/plain'' \<Longrightarrow>
   run_step fs m Start = ([Reply PlainText msg_wait], fs, Waited d (parse_top_n (args m)))"
  by (simp add: run_step_def)

lemma run_step_Waited: "run_step fs m (Waited d n) = ([], fs, GotFile d n)"
  by (simp add: run_step_def)

lemma run_step_GotFile:
  "\<exists>es. run_step fs m (GotFile d n) =
     (es, fs(history_path (user_id m) := disk_file d), Replied (history_path (user_id m)))"
proof -
  let ?p = "history_path (user_id m)"
  obtain h l where b: "baca_history_dari_file (fs(?p := disk_file d)) ?p = (h, l)"
    by (cases "baca_history_dari_file (fs(?p := disk_file d)) ?p")
  obtain hasil where "generate_bbfs_prediktif h n = Inr hasil" using generate_Inr by blast
  with b show ?thesis by (simp add: run_step_def Let_def)
qed

lemma run_step_Replied:
  "run_step fs m (Replied p) =
     (if fs p = Inl FileNotFoundError then ([], fs, Raised FileNotFound)
      else ([Remove p], fs(p := Inl FileNotFoundError), Done))"
  by (simp add: run_step_def os_remove_def)

lemma history_path_eq_iff: "history_path a = history_path b \<longleftrightarrow> a = b"
  by (metis history_path_def append_same_eq same_append_eq py_int_of_string_str_int option.inject)

lemma step_task_simps:
  assumes "tasks s ! i = (m, ph)" and "run_step (disk s) m ph = (es, fs', ph')"
  shows "disk (step_task i s) = fs'" and "tasks (step_task i s) = (tasks s)[i := (m, ph')]"
    and "sent (step_task i s) = sent s @ map (Pair i) es"
  using assms by (simp_all add: step_task_def)

inductive_cases sched_stepE: "sched_step s s'"

lemma sched_step_parts:
  assumes "sched_step s s'"
  obtains i m ph es fs' ph' where "i < length (tasks s)" "\<not> finished ph" "tasks s ! i = (m, ph)"
    "run_step (disk s) m ph = (es, fs', ph')" "disk s' = fs'" "tasks s' = (tasks s)[i := (m, ph')]"
    "sent s' = sent s @ map (Pair i) es"
proof -
  from assms obtain i where i: "i < length (tasks s)" "\<not> finished (snd (tasks s ! i))" and s': "s' = step_task i s"
    by (rule sched_stepE)
  obtain m ph where t: "tasks s ! i = (m, ph)" by (cases "tasks s ! i")
  obtain es fs' ph' where r: "run_step (disk s) m ph = (es, fs', ph')" by (cases "run_step (disk s) m ph")
  show ?thesis using that [OF i(1) _ t r] i(2) t step_task_simps [OF t r] s' by simp
qed

lemma sched_step_msgs: "sched_step s s' \<Longrightarrow> map fst (tasks s') = map fst (tasks s)"
  by (elim sched_step_parts) (simp add: map_update list_update_same_conv)

lemma sched_steps_msgs: "sched_step\<^sup>*\<^sup>* s s' \<Longrightarrow> map fst (tasks s') = map fst (tasks s)"
  by (induction rule: rtranclp_induct) (simp_all add: sched_step_msgs)

lemma task_inv_step:
  assumes "task_inv fs (m, ph)" and "\<not> finished ph"
  shows "task_inv (fst (snd (run_step fs m ph))) (m, snd (snd (run_step fs m ph)))"
proof (cases ph)
  case (GotFile d n)
  then show ?thesis using assms(1) run_step_GotFile [of fs m d n] by (auto simp: task_inv_def)
next
  case (Replied p)
  then show ?thesis using assms(1)
    by (auto simp: task_inv_def run_step_Replied disk_file_def split: option.splits sum.splits)
qed (use assms in \<open>auto simp: task_inv_def run_step_def split: option.split\<close>)

lemma task_inv_other:
  assumes "task_inv fs (m, ph)" and "\<forall>q. q \<noteq> path \<longrightarrow> fs' q = fs q"
    and "history_path (user_id m) \<noteq> path"
  shows "task_inv fs' (m, ph)"
  using assms by (cases ph) (auto simp: task_inv_def split: option.splits)


lemma distinct_users_path:
  "distinct (map (user_id \<circ> fst) xs) \<Longrightarrow> i < length xs \<Longrightarrow> j < length xs \<Longrightarrow> i \<noteq> j \<Longrightarrow>
   history_path (user_id (fst (xs ! j))) \<noteq> history_path (user_id (fst (xs ! i)))"
  by (simp add: history_path_eq_iff distinct_conv_nth)

lemma sched_inv_step:
  assumes "sched_step s s'" and "sched_inv s" and "distinct (map (user_id \<circ> fst) (tasks s))"
  shows "sched_inv s'"
  using assms(1)
proof (elim sched_step_parts)
  fix i m ph es fs' ph'
  assume i: "i < length (tasks s)" and nf: "\<not> finished ph" and t: "tasks s ! i = (m, ph)"
    and r: "run_step (disk s) m ph = (es, fs', ph')" and d': "disk s' = fs'"
    and ts: "tasks s' = (tasks s)[i := (m, ph')]"
  have inv_i: "task_inv (disk s) (m, ph)" using assms(2) i t unfolding sched_inv_def by metis
  have own: "\<And>p. ph = Replied p \<Longrightarrow> p = history_path (user_id m)" using inv_i by (simp add: task_inv_def)
  have other: "\<forall>q. q \<noteq> history_path (user_id m) \<longrightarrow> fs' q = disk s q"
    using run_step_other [of _ m ph "disk s"] own r by auto
  show "sched_inv s'" unfolding sched_inv_def
  proof (intro allI impI)
    fix j assume j: "j < length (tasks s')"
    show "task_inv (disk s') (tasks s' ! j)"
    proof (cases "j = i")
      case True
      then show ?thesis using task_inv_step [OF inv_i nf] i r d' ts by simp
    next
      case False
      have "history_path (user_id (fst (tasks s ! j))) \<noteq> history_path (user_id m)"
        using distinct_users_path [OF assms(3) i, of j] j False t ts by simp
      moreover have "task_inv (disk s) (tasks s ! j)" using assms(2) j ts by (simp add: sched_inv_def)
      ultimately show ?thesis
        using task_inv_other [of "disk s" "fst (tasks s ! j)" "snd (tasks s ! j)" "history_path (user_id m)" fs']
          other False d' ts by simp
    qed
  qed
qed

lemma sched_inv_reach:
  assumes "sched_step\<^sup>*\<^sup>* (init_sched fs ms) s" and "distinct (map user_id ms)"
  shows "sched_inv s"
  using assms(1)
proof (induction rule: rtranclp_induct)
  case base
  then show ?case by (simp add: sched_inv_def init_sched_def task_inv_def)
next
  case (step s s')
  have "map fst (tasks s) = ms" using sched_steps_msgs [OF step(1)] by (simp add: init_sched_def comp_def)
  then have "distinct (map (user_id \<circ> fst) (tasks s))" using assms(2) by (metis map_map)
  with step show ?case by (blast intro: sched_inv_step)
qed


lemma run_schedule_reach: "run_schedule is s = Some s' \<Longrightarrow> sched_step\<^sup>*\<^sup>* s s'"
proof (induction "is" arbitrary: s)
  case (Cons i "is")
  then have "sched_step s (step_task i s)" and "run_schedule is (step_task i s) = Some s'"
    by (auto intro: sched_step.step split: if_splits)
  with Cons.IH show ?case by (meson converse_rtranclp_into_rtranclp)
qed simp

lemma race_schedule:
  assumes "reply_to m1 = Some (Some d1)" "mime_type d1 = Some ''text/plain''"
    and "reply_to m2 = Some (Some d2)" "mime_type d2 = Some ''text/plain''"
    and "user_id m2 = user_id m1"
  shows "\<exists>s. run_schedule [0, 0, 0, 1, 1, 1, 0, 1] (init_sched fs [m1, m2]) = Some s
           \<and> snd (tasks s ! 0) = Done \<and> snd (tasks s ! 1) = Raised FileNotFound
           \<and> disk s (history_path (user_id m1)) = Inl FileNotFoundError"
proof -
  let ?p = "history_path (user_id m1)"
  obtain es1 where e1: "run_step fs m1 (GotFile d1 (parse_top_n (args m1))) =
      (es1, fs(?p := disk_file d1), Replied ?p)"
    using run_step_GotFile by blast
  obtain es2 where e2: "run_step (fs(?p := disk_file d1)) m2 (GotFile d2 (parse_top_n (args m2))) =
      (es2, fs(?p := disk_file d2), Replied ?p)"
    using run_step_GotFile [of "fs(?p := disk_file d1)" m2 d2] assms(5) by auto
  show ?thesis
    using assms e1 e2
    by (simp add: init_sched_def step_task_def run_step_Start_text run_step_Waited run_step_Replied)
qed

lemma analisis_command_outcome:
  "snd (snd (analisis_command fs m)) = None
   \<and> fst (snd (analisis_command fs m))
       = (if is_text_reply m then fs(history_path (user_id m) := Inl FileNotFoundError) else fs)"
proof (cases "is_text_reply m")
  case True
  then obtain d where "reply_to m = Some (Some d)" "mime_type d = Some ''text/plain''"
    by (auto simp: is_text_reply_def split: option.splits)
  then show ?thesis by (rule analisis_command_text [where fs = fs]) (simp add: True)
next
  case False
  then show ?thesis by (auto simp: is_text_reply_def analisis_command_def split: option.splits)
qed

lemma fold_sequential_no_exc:
  "\<forall>r\<in>set outs. snd r = None \<Longrightarrow> \<forall>r\<in>set (fst (fold seq_step ms (outs, fs))). snd r = None"
proof (erule fold_invariant [where P = "\<lambda>st. \<forall>r\<in>set (fst st). snd r = None" and s = "(outs, fs)", simplified])
  fix m and st :: "(effect list \<times> py_exc option) list \<times> file_system"
  assume "\<forall>r\<in>set (fst st). snd r = None"
  then show "\<forall>r\<in>set (fst (seq_step m st)). snd r = None"
    using analisis_command_outcome [of "snd st" m]
    by (auto simp: seq_step_def split: prod.split)
qed


lemma fold_sequential_disk:
  "snd (fold seq_step ms (outs, fs)) q = (if q \<in> set (temp_paths ms) then Inl FileNotFoundError else fs q)"
proof (induction ms arbitrary: outs fs)
  case (Cons m ms)
  obtain es fs' exc where a: "analisis_command fs m = (es, fs', exc)" by (cases "analisis_command fs m")
  have "fs' = (if is_text_reply m then fs(history_path (user_id m) := Inl FileNotFoundError) else fs)"
    using analisis_command_outcome [of fs m] a by simp
  then show ?case using Cons.IH [of "outs @ [(es, exc)]" fs'] a by (auto simp: seq_step_def temp_paths_def)
qed (simp add: temp_paths_def)

lemma fold_sequential_length:
  "length (fst (fold seq_step ms (outs, fs))) = length outs + length ms"
proof (induction ms arbitrary: outs fs)
  case (Cons m ms)
  obtain es fs' exc where a: "analisis_command fs m = (es, fs', exc)" by (cases "analisis_command fs m")
  then show ?case using Cons.IH [of "outs @ [(es, exc)]" fs'] by (simp add: seq_step_def)
qed simp

subsection \<open>Properties of the update processing\<close>

text \<open>C28: requests of distinct users do not interfere, in any interleaving: no task
  ever raises, and a task that has replied finds at its own path the very file it
  downloaded, so its \<open>os.remove\<close> succeeds and removes its own upload.\<close>

theorem distinct_users_no_exception:
  assumes "sched_step\<^sup>*\<^sup>* (init_sched fs ms) s" and "distinct (map user_id ms)"
  shows "\<forall>i<length (tasks s). outcome_exc (snd (tasks s ! i)) = None
           \<and> (\<forall>p. snd (tasks s ! i) = Replied p \<longrightarrow> p = history_path (user_id (fst (tasks s ! i)))
                 \<and> (\<exists>d. reply_to (fst (tasks s ! i)) = Some (Some d) \<and> disk s p = disk_file d))"
proof (intro allI impI)
  fix i assume i: "i < length (tasks s)"
  have "task_inv (disk s) (tasks s ! i)" using sched_inv_reach [OF assms] i by (simp add: sched_inv_def)
  then show "outcome_exc (snd (tasks s ! i)) = None
      \<and> (\<forall>p. snd (tasks s ! i) = Replied p \<longrightarrow> p = history_path (user_id (fst (tasks s ! i)))
            \<and> (\<exists>d. reply_to (fst (tasks s ! i)) = Some (Some d) \<and> disk s p = disk_file d))"
    by (cases "snd (tasks s ! i)") (auto simp: task_inv_def split: option.splits)
qed

theorem distinct_users_no_exception_witness:
  "\<exists>s. sched_step\<^sup>*\<^sup>* (init_sched (\<lambda>_. Inl FileNotFoundError) [example_message, example_message\<lparr>user_id := 6\<rparr>]) s
     \<and> sent s \<noteq> [] \<and> (\<forall>i<length (tasks s). outcome_exc (snd (tasks s ! i)) = None)"
proof -
  let ?ms = "[example_message, example_message\<lparr>user_id := 6\<rparr>]"
  let ?s0 = "init_sched (\<lambda>_. Inl FileNotFoundError) ?ms"
  have st: "sched_step ?s0 (step_task 0 ?s0)" by (rule sched_step.step) (simp_all add: init_sched_def)
  have e: "sent (step_task 0 ?s0) \<noteq> []"
    by (simp add: init_sched_def step_task_def run_step_def example_message_def)
  have d: "distinct (map user_id ?ms)" by (simp add: example_message_def)
  have rs: "sched_step\<^sup>*\<^sup>* ?s0 (step_task 0 ?s0)" using st by (rule r_into_rtranclp)
  from distinct_users_no_exception [OF rs d] rs e show ?thesis by blast
qed

text \<open>C29: two overlapping \<open>/analisis\<close> requests of one user share the file
  \<open>history_<user id>.txt\<close>. When updates are processed concurrently, the schedule
  "first request to its reply, second request to its reply, first removes, second
  removes" is reachable and ends with the second request raising
  \<open>FileNotFoundError\<close> in \<open>os.remove\<close>: the temporary file is per user, not per
  request.\<close>

theorem same_user_race:
  assumes "reply_to m1 = Some (Some d1)" "mime_type d1 = Some ''text/plain''"
    and "reply_to m2 = Some (Some d2)" "mime_type d2 = Some ''text/plain''"
    and "user_id m2 = user_id m1"
  shows "\<exists>s. sched_step\<^sup>*\<^sup>* (init_sched fs [m1, m2]) s
           \<and> run_schedule [0, 0, 0, 1, 1, 1, 0, 1] (init_sched fs [m1, m2]) = Some s
           \<and> snd (tasks s ! 0) = Done \<and> snd (tasks s ! 1) = Raised FileNotFound"
  using race_schedule [OF assms, of fs] run_schedule_reach by blast

theorem same_user_race_witness:
  "\<exists>s. sched_step\<^sup>*\<^sup>* (init_sched (\<lambda>_. Inl FileNotFoundError) [example_message, example_message]) s
     \<and> snd (tasks s ! 1) = Raised FileNotFound"
proof -
  let ?d = "\<lparr>mime_type = Some ''text/plain'', downloaded = Inr ''12''\<rparr> :: document"
  have r: "reply_to example_message = Some (Some ?d)" by (simp add: example_message_def)
  have mt: "mime_type ?d = Some ''text/plain''" by simp
  from same_user_race [OF r mt r mt refl, of "\<lambda>_. Inl FileNotFoundError"] show ?thesis by blast
qed

text \<open>C30: processed one update at a time, the library's default and the
  configuration of \<open>main\<close>, no \<open>/analisis\<close> request raises, whoever sends them,
  every request gets its outcome, and afterwards no temporary file is left: the
  paths of the accepted uploads are absent and every other path is as before.\<close>

theorem sequential_no_exception:
  "length (fst (process_sequential fs ms)) = length ms
   \<and> (\<forall>r\<in>set (fst (process_sequential fs ms)). snd r = None)
   \<and> (\<forall>q. snd (process_sequential fs ms) q = (if q \<in> set (temp_paths ms) then Inl FileNotFoundError else fs q))"
proof (intro conjI)
  show "length (fst (process_sequential fs ms)) = length ms"
    unfolding process_sequential_def using fold_sequential_length [of ms "[]" fs] by simp
  show "\<forall>r\<in>set (fst (process_sequential fs ms)). snd r = None"
    unfolding process_sequential_def by (rule fold_sequential_no_exc) simp
  show "\<forall>q. snd (process_sequential fs ms) q = (if q \<in> set (temp_paths ms) then Inl FileNotFoundError else fs q)"
    unfolding process_sequential_def by (simp add: fold_sequential_disk)
qed

theorem sequential_no_exception_witness:
  "map snd (fst (process_sequential (\<lambda>_. Inl FileNotFoundError) [example_message, example_message])) = [None, None]"
proof -
  let ?r = "fst (process_sequential (\<lambda>_. Inl FileNotFoundError) [example_message, example_message])"
  have "length ?r = 2 \<and> (\<forall>r\<in>set ?r. snd r = None)"
    using sequential_no_exception [of "\<lambda>_. Inl FileNotFoundError" "[example_message, example_message]"] by simp
  then have "map snd ?r = replicate (length ?r) None" and "length ?r = 2"
    using map_const_replicate [of ?r snd None] by simp_all
  then show ?thesis by (simp add: numeral_2_eq_2)
qed

end
