(* ===== verification/Config.thy ===== *)
theory Config
  imports Bot
begin

text \<open>
  The module-level configuration and the script entry of src/main.py: the token
  read from the environment (line 9), the logging setup (lines 12 to 16), the
  lines \<open>main\<close> prints (lines 199 to 219) and the \<open>__main__\<close> guard (lines 222
  and 223). The environment is a partial map from variable names to values, as
  \<open>os.getenv\<close> sees it. A log record passes the logger when its level number is
  at least the configured one (the logger \<open>__main__\<close> has no level of its own
  and inherits the root's \<open>INFO\<close>), and is written as the format string of
  line 13 renders it; the time stamp \<open>asctime\<close> is a parameter.

  Shown here: the error the loader logs for an unreadable upload reaches the log
  as one \<open>ERROR\<close> line of the configured format (C33).
\<close>

type_synonym environ = "string \<Rightarrow> string option"

datatype log_level = DEBUG | INFO | WARNING | ERROR | CRITICAL

fun levelno :: "log_level \<Rightarrow> nat" where
  "levelno DEBUG = 10"
| "levelno INFO = 20"
| "levelno WARNING = 30"
| "levelno ERROR = 40"
| "levelno CRITICAL = 50"

fun levelname :: "log_level \<Rightarrow> string" where
  "levelname DEBUG = ''DEBUG''"
| "levelname INFO = ''INFO''"
| "levelname WARNING = ''WARNING''"
| "levelname ERROR = ''ERROR''"
| "levelname CRITICAL = ''CRITICAL''"

record logging_config =
  log_threshold :: nat
  log_format :: "string \<Rightarrow> string \<Rightarrow> string \<Rightarrow> string \<Rightarrow> string"
    \<comment> \<open>\<open>asctime\<close>, \<open>name\<close>, \<open>levelname\<close>, \<open>message\<close> to the record's line\<close>

definition TELEGRAM_BOT_TOKEN :: "environ \<Rightarrow> string option" where
  "TELEGRAM_BOT_TOKEN env = env ''TELEGRAM_BOT_TOKEN''"

definition basic_config :: logging_config where
  "basic_config =
     \<lparr>log_threshold = levelno INFO,
      log_format = (\<lambda>asctime name lvl message. asctime @ '' - '' @ name @ '' - '' @ lvl @ '' - '' @ message)\<rparr>"

definition logger_name :: string where
  "logger_name = ''__main__''"
  \<comment> \<open>\<open>logging.getLogger(__name__)\<close> when the file runs as a script\<close>

definition log_emit :: "logging_config \<Rightarrow> string \<Rightarrow> log_level \<Rightarrow> string \<Rightarrow> string list" where
  "log_emit cfg asctime lvl message =
     (if log_threshold cfg \<le> levelno lvl then [log_format cfg asctime logger_name (levelname lvl) message] else [])"

fun log_effect :: "string \<Rightarrow> effect \<Rightarrow> string list" where
  "log_effect asctime (LogError message) = log_emit basic_config asctime ERROR message"
| "log_effect asctime _ = []"

definition log_lines :: "string \<Rightarrow> effect list \<Rightarrow> string list" where
  "log_lines asctime es = concat (map (log_effect asctime) es)"

definition main_stdout :: "main_outcome \<Rightarrow> string list" where
  "main_stdout r =
     (case r of
        TokenNotFilled \<Rightarrow>
          [''!!! KESALAHAN: Token bot belum diisi. Silakan edit file dan isi variabel TELEGRAM_BOT_TOKEN.'']
      | InvalidTokenRaised \<Rightarrow> []
      | Polling _ \<Rightarrow> [''Bot sedang berjalan... Tekan Ctrl+C untuk berhenti.''])"

definition script_main :: "environ \<Rightarrow> string \<Rightarrow> main_outcome option" where
  "script_main env module_name =
     (if module_name = ''__main__'' then Some (main_bot (TELEGRAM_BOT_TOKEN env)) else None)"

subsection \<open>Lemmas\<close>

lemma log_lines_append [simp]: "log_lines t (xs @ ys) = log_lines t xs @ log_lines t ys"
  by (simp add: log_lines_def)

lemma log_lines_simps [simp]:
  "log_lines t [] = []" "log_lines t (Reply pm s # es) = log_lines t es"
  "log_lines t (Download p # es) = log_lines t es" "log_lines t (Remove p # es) = log_lines t es"
  "log_lines t (LogError s # es) = log_emit basic_config t ERROR s @ log_lines t es"
  by (simp_all add: log_lines_def)

lemma log_emit_error: "log_emit basic_config t ERROR s = [t @ '' - __main__ - ERROR - '' @ s]"
  by (simp add: log_emit_def basic_config_def logger_name_def)

lemma baca_OtherError_log:
  "fs p = Inl (OtherError e) \<Longrightarrow> baca_history_dari_file fs p = ([], [''Error saat membaca file: '' @ e])"
  by (simp add: baca_history_dari_file_def)

subsection \<open>Properties of the configuration\<close>

text \<open>C33: \<open>/analisis\<close> on a plain-text upload that cannot be read writes exactly
  one line to the log: the loader's message at level \<open>ERROR\<close>, in the format of
  line 13 under the logger \<open>__main__\<close>; a readable upload writes none.\<close>

theorem analisis_log_lines:
  assumes "reply_to m = Some (Some d)" and "mime_type d = Some ''text/plain''"
  shows "log_lines t (fst (analisis_command fs m)) =
           (case downloaded d of
              Inl e \<Rightarrow> [t @ '' - __main__ - ERROR - Error saat membaca file: '' @ e]
            | Inr _ \<Rightarrow> [])"
proof -
  let ?p = "history_path (user_id m)"
  obtain hasil where
    "analisis_command fs m =
       ([Reply PlainText msg_wait, Download ?p] @ map LogError (snd (baca_history_dari_file (fs(?p := disk_file d)) ?p))
          @ [Reply Markdown hasil, Remove ?p], fs(?p := Inl FileNotFoundError), None)"
    using analisis_command_text [OF assms] by blast
  then have a: "log_lines t (fst (analisis_command fs m))
      = log_lines t (map LogError (snd (baca_history_dari_file (fs(?p := disk_file d)) ?p)))"
    by simp
  show ?thesis
  proof (cases "downloaded d")
    case (Inl e)
    then have "baca_history_dari_file (fs(?p := disk_file d)) ?p = ([], [''Error saat membaca file: '' @ e])"
      by (intro baca_OtherError_log) (simp add: disk_file_def)
    with a Inl show ?thesis by (simp add: log_emit_error)
  next
    case (Inr content)
    then have "snd (baca_history_dari_file (fs(?p := disk_file d)) ?p) = []"
      using baca_Inr [of "fs(?p := disk_file d)" ?p content] by (simp add: disk_file_def)
    with a Inr show ?thesis by simp
  qed
qed

theorem analisis_log_lines_witness:
  "log_lines ''T'' (fst (analisis_command (\<lambda>_. Inl FileNotFoundError)
      (example_message\<lparr>reply_to := Some (Some \<lparr>mime_type = Some ''text/plain'', downloaded = Inl ''bad byte''\<rparr>)\<rparr>)))
     = [''T - __main__ - ERROR - Error saat membaca file: bad byte'']"
  using analisis_log_lines [of "example_message\<lparr>reply_to := Some (Some \<lparr>mime_type = Some ''text/plain'', downloaded = Inl ''bad byte''\<rparr>)\<rparr>"
      "\<lparr>mime_type = Some ''text/plain'', downloaded = Inl ''bad byte''\<rparr>" "''T''" "\<lambda>_. Inl FileNotFoundError"]
  by simp

end
