(* ===== verification/Spec2Isabelle.thy ===== *)
theory Spec2Isabelle
  imports Session Config
begin

text \<open>
  \<^bold>\<open>Predictor-Togel-Bot: the analysis engine, its loader and its bot handlers.\<close>

  \<^emph>\<open>The program.\<close> src/main.py is a Telegram bot. \<open>main\<close> (lines 199 to 219)
  checks the token and registers five handlers: \<open>start\<close>, \<open>help_command\<close>,
  \<open>handle_document\<close>, \<open>analisis_command\<close>, \<open>handle_text\<close>. A user sends a
  text file of past draws, one per line, and replies to it with \<open>/analisis [n]\<close>;
  \<open>analisis_command\<close> parses \<open>n\<close> (default 7), downloads the file to
  \<open>history_<user id>.txt\<close>, reads it with \<open>baca_history_dari_file\<close> (strip every
  line, drop blank ones, log and return nothing on an error), hands the list to
  \<open>generate_bbfs_prediktif\<close>, replies with its text and removes the file. The
  generator calls \<open>analisis_digit\<close> (all decimal digits, and the digits by
  position), \<open>collections.Counter\<close> and \<open>most_common\<close> (the ranking),
  \<open>mirror_number\<close> (the partner digit five apart) and \<open>hitung_angka_ikut\<close>
  (co-occurring digit pairs). Data flows one way; only the handler touches the file
  system, and no component keeps state between calls.

  \<^emph>\<open>The library\<close> (each theory opens with what it holds):
  \<^item> \<open>Prelude\<close>: type names (\<open>token\<close>, \<open>history\<close>), the exception type
    \<open>py_exc\<close>, \<open>py_map_exc\<close> (a list comprehension whose body may raise), the
    rule collections and list lemmas shared by the components.
  \<^item> \<open>PyText\<close>: the Python string built-ins on code points U+0000 to U+00FF:
    \<open>str.isspace\<close>, \<open>str.isdigit\<close>, \<open>int()\<close> of a character and of a string,
    \<open>str()\<close> of an integer, \<open>str.strip()\<close>, UTF-8 of a character.
  \<^item> \<open>PyCounter\<close>: \<open>collections.Counter\<close> as an association list in insertion
    order (\<open>counter_inc\<close> for \<open>c[k] += 1\<close>, \<open>Counter\<close>, \<open>counter_get\<close>) and
    \<open>most_common\<close> as a stable sort on descending counts cut at \<open>n\<close>. The
    invariant \<open>counter_wf\<close> (distinct keys, positive counts) is kept by every
    increment; counts are occurrence counts, keys come in order of first
    occurrence, and the ranking is a stable descending sort cut at \<open>n\<close>.
  \<^item> \<open>Mirror\<close>: \<open>mirror_number\<close> (lines 24 to 28): an involution without fixed
    points on the digits (C12).
  \<^item> \<open>Digits\<close>: \<open>analisis_digit\<close> (lines 47 to 61), its two accumulators as the
    record \<open>digit_state\<close>, its loops as folds: refinement of the flat list by a
    \<open>map_filter\<close> specification (C7), its range (C8), the exact contents of the
    positional dict (C9), and the positions together hold exactly the digits of
    the flat list, each once (C34, an invariant of the scanner's record).
  \<^item> \<open>Pairs\<close>: \<open>hitung_angka_ikut\<close> (lines 64 to 73), the \<open>range\<close> loops as folds
    over index lists, shown equal to the Counter of a structural enumeration of
    pairs (C31): the count of every pair (C10), well-formed and normalised keys
    (C11).
  \<^item> \<open>Report\<close>: \<open>generate_bbfs_prediktif\<close> (lines 76 to 111), one definition per
    f-string: the two early returns (C1, C2), no exception (C3), the whole text when
    there are digits (C4), the mirror string is the BBFS string mirrored position by
    position (C5), the length of the BBFS string (C6); the ranked digits are
    distinct digits with positive counts, at most ten of them (C32), in descending
    order of count with ties in order of first occurrence in the history (C13),
    with their exact counts and no digit left out that occurs more often than one
    listed (C14); the BBFS string reads back as the ranked digits, one character
    each (C15).
  \<^item> \<open>Loader\<close>: \<open>baca_history_dari_file\<close> (lines 32 to 43) over a file system
    given as a function from paths to a read error or the decoded text; universal
    newlines and \<open>readlines\<close>: clean tokens (C17), the stripped non-blank lines in
    order (C18), a file of clean tokens written one per line loads back to exactly
    those tokens (C19), errors give the empty history
    and a log line (C20).
  \<^item> \<open>Bot\<close>: the handlers (lines 119 to 196) as functions to their list of effects
    (replies with parse mode, download, log lines, removal), \<open>analisis_command\<close>
    threading the file system; \<open>main\<close> as the token guard, the registration list
    and the library's first-match dispatch: the reply and the clean-up of
    \<open>/analisis\<close> (C21), its two refusals (C22), the parsing of \<open>top_n\<close> (C23),
    dispatch (C24), the token guard (C25); an edited message reaches the same
    handlers and makes them raise \<open>AttributeError\<close> before any effect (C35).
  \<^item> \<open>Session\<close>: \<open>analisis_command\<close> cut at its awaits into segments
    (\<open>run_step\<close>, the frame's locals in \<open>phase\<close>), one
    update at a time (\<open>process_sequential\<close>, the library default that \<open>main\<close>
    keeps) or interleaved over a shared disk (the step relation \<open>sched_step\<close>, for
    an application built with concurrent updates): distinct users never interfere
    (C28, an invariant by rule induction), two requests of one user can make the second \<open>os.remove\<close> raise (C29), and
    sequential processing never raises and leaves no temporary file (C30).
  \<^item> \<open>Config\<close>: the token from \<open>os.getenv\<close>, \<open>logging.basicConfig\<close> and the
    logger, the lines \<open>main\<close> prints and the \<open>__main__\<close> guard: the log line of
    an unreadable upload (C33).
  \<^item> This theory: properties across components: a non-positive \<open>top_n\<close> (C16),
    the whole path from an uploaded file to the report (C26) and from an unreadable
    upload to the empty-data report (C27).

  \<^emph>\<open>Modelling choices.\<close> A character is a code point up to U+00FF (Isabelle's
  \<open>char\<close>); this range keeps the superscript digits one, two and three, which
  \<open>str.isdigit\<close> accepts and \<open>int()\<close> rejects. The report and the replies are
  the UTF-8 encoding of the Python strings. Python integers are \<open>int\<close>, counts
  and lengths \<open>nat\<close>. Every loop of the program is a \<open>for\<close> over a finite list
  and is modelled as a \<open>fold\<close> or structural recursion, so no fuel is needed and
  every definition is total and executable (the witnesses evaluate them with
  \<open>simp\<close> and \<open>code_simp\<close>). Exceptions are the left side of a sum or an
  explicit outcome; the only one the analysis can meet is \<open>ValueError\<close> from
  \<open>int()\<close> at line 98, and C3 shows it is never raised; the handler can also
  meet \<open>FileNotFoundError\<close> from \<open>os.remove\<close> at line 190, which C29 shows
  reachable only when updates are processed concurrently, and
  \<open>AttributeError\<close> on an edited message (C35). The scheduler runs
  the segment of one task at a time, as asyncio does: a segment ends at an await.
  The write of the downloaded file is taken to complete with the await of
  \<open>download_to_drive\<close>, after the library's last network wait. The log's time
  stamp is a parameter.

  \<^emph>\<open>Not modelled.\<close> The imports (lines 1 to 5) have no behaviour. The
  Telegram network layer and polling, update objects beyond the fields the handlers
  read (the user's \<open>mention_html\<close> is a given string), Markdown and HTML
  rendering by the client, the library's own log records, and the decoding of the
  file's bytes (the file system yields decoded text or a read error): these are
  code of the library or of the client, not of src/main.py; where the program
  depends on them the model takes their documented behaviour (the dispatch order,
  sequential or concurrent processing of updates, the logging threshold, the
  update kinds the default filters accept). An update is a fresh or an edited
  message; channel posts and other update kinds match no registered handler in the
  model. The network calls \<open>get_file\<close>, \<open>download_to_drive\<close> and \<open>reply_*\<close>
  are taken to succeed: their failures, which would escape the handlers, are not
  modelled. The claims on the \<open>/analisis\<close> handler (C21, C26, C27, C30) are
  stated for a fresh message, which carries \<open>update.message\<close>; C35 covers the
  edited case.
\<close>

subsection \<open>Properties across components\<close>

text \<open>C16: a \<open>top_n\<close> of zero or below (\<open>/analisis 0\<close>, \<open>/analisis -3\<close> parse
  as integers and are passed on) ranks no digit: the BBFS and mirror strings are
  empty rather than falling back to the default of 7.\<close>

theorem nonpositive_top_n:
  assumes "top_n \<le> 0"
  shows "ranked_digits history top_n = [] \<and> bbfs_string history top_n = []
         \<and> mirror_string history top_n = []"
  using assms by (simp add: ranked_digits_def bbfs_string_def mirror_string_def)

theorem nonpositive_top_n_witness:
  "(0::int) \<le> 0 \<and> bbfs_string [''12''] 0 = [] \<and> mirror_string [''12''] 0 = []"
  using nonpositive_top_n [of 0 "[''12'']"] by simp

text \<open>C26: end to end, \<open>/analisis\<close> in reply to a plain-text document whose download
  reads as \<open>content\<close> replies with the report of the stripped non-blank lines of
  \<open>content\<close> and removes its temporary file; nothing is logged.\<close>

theorem analisis_end_to_end:
  assumes "reply_to m = Some (Some d)" and "mime_type d = Some ''text/plain''"
    and "downloaded d = Inr content"
  shows "\<exists>hasil. generate_bbfs_prediktif (filter (\<lambda>t. t \<noteq> []) (map py_strip (py_readlines content)))
                   (parse_top_n (args m)) = Inr hasil
           \<and> fst (analisis_command fs m) =
               [Reply PlainText msg_wait, Download (history_path (user_id m)),
                Reply Markdown hasil, Remove (history_path (user_id m))]"
proof -
  let ?p = "history_path (user_id m)"
  have b: "baca_history_dari_file (fs(?p := disk_file d)) ?p
      = (filter (\<lambda>t. t \<noteq> []) (map py_strip (py_readlines content)), [])"
    using assms(3) by (intro baca_Inr) (simp add: disk_file_def)
  obtain hasil where
    g: "generate_bbfs_prediktif (fst (baca_history_dari_file (fs(?p := disk_file d)) ?p)) (parse_top_n (args m)) = Inr hasil" and
    a: "analisis_command fs m =
       ([Reply PlainText msg_wait, Download ?p] @ map LogError (snd (baca_history_dari_file (fs(?p := disk_file d)) ?p))
          @ [Reply Markdown hasil, Remove ?p], fs(?p := Inl FileNotFoundError), None)"
    using analisis_command_text [OF assms(1,2)] by blast
  from g have "generate_bbfs_prediktif (filter (\<lambda>t. t \<noteq> []) (map py_strip (py_readlines content)))
                 (parse_top_n (args m)) = Inr hasil"
    by (simp only: b fst_conv)
  moreover from a have "fst (analisis_command fs m) =
      [Reply PlainText msg_wait, Download ?p, Reply Markdown hasil, Remove ?p]"
    by (simp only: b snd_conv fst_conv list.map append_Nil append_Cons)
  ultimately show ?thesis by (intro exI conjI)
qed

theorem analisis_end_to_end_witness:
  "\<exists>hasil. fst (analisis_command (\<lambda>_. Inl FileNotFoundError) example_message) =
     [Reply PlainText msg_wait, Download ''history_5.txt'', Reply Markdown hasil, Remove ''history_5.txt'']"
proof -
  let ?d = "\<lparr>mime_type = Some ''text/plain'', downloaded = Inr ''12''\<rparr> :: document"
  have r: "reply_to example_message = Some (Some ?d)" by (simp add: example_message_def)
  have mt: "mime_type ?d = Some ''text/plain''" by simp
  have dl: "downloaded ?d = Inr ''12''" by simp
  have p: "history_path (user_id example_message) = ''history_5.txt''" by code_simp
  from analisis_end_to_end [OF r mt dl, of "\<lambda>_. Inl FileNotFoundError"]
  obtain hasil where
    "fst (analisis_command (\<lambda>_. Inl FileNotFoundError) example_message) =
       [Reply PlainText msg_wait, Download (history_path (user_id example_message)),
        Reply Markdown hasil, Remove (history_path (user_id example_message))]"
    by (elim exE conjE)
  then have "fst (analisis_command (\<lambda>_. Inl FileNotFoundError) example_message) =
       [Reply PlainText msg_wait, Download ''history_5.txt'', Reply Markdown hasil, Remove ''history_5.txt'']"
    by (simp only: p)
  then show ?thesis by (intro exI)
qed

text \<open>C27: when the downloaded file cannot be read, the loader's error is logged and
  the user still gets a report: the empty-data message; the file is removed.\<close>

theorem analisis_unreadable_download:
  assumes "reply_to m = Some (Some d)" and "mime_type d = Some ''text/plain''"
    and "downloaded d = Inl e"
  shows "\<exists>l. fst (analisis_command fs m) =
           [Reply PlainText msg_wait, Download (history_path (user_id m)), LogError l,
            Reply Markdown msg_empty_history, Remove (history_path (user_id m))]"
proof -
  let ?p = "history_path (user_id m)"
  let ?b = "baca_history_dari_file (fs(?p := disk_file d)) ?p"
  have b: "fst ?b = []"
    using assms(3) baca_Inl [of "fs(?p := disk_file d)" ?p "OtherError e"] by (simp add: disk_file_def)
  obtain l where l: "snd ?b = [l]"
    using assms(3) baca_Inl_log [of "fs(?p := disk_file d)" ?p "OtherError e"] by (auto simp: disk_file_def)
  obtain hasil where
    g: "generate_bbfs_prediktif (fst ?b) (parse_top_n (args m)) = Inr hasil" and
    a: "analisis_command fs m =
       ([Reply PlainText msg_wait, Download ?p] @ map LogError (snd ?b)
          @ [Reply Markdown hasil, Remove ?p], fs(?p := Inl FileNotFoundError), None)"
    using analisis_command_text [OF assms(1,2)] by blast
  from g have "generate_bbfs_prediktif [] (parse_top_n (args m)) = Inr hasil" by (simp only: b)
  then have "hasil = msg_empty_history" by (simp add: generate_early)
  with a l have "fst (analisis_command fs m) =
      [Reply PlainText msg_wait, Download ?p, LogError l, Reply Markdown msg_empty_history, Remove ?p]"
    by (simp only: fst_conv list.map append_Nil append_Cons)
  then show ?thesis by (intro exI)
qed

theorem analisis_unreadable_download_witness:
  "\<exists>l. fst (analisis_command (\<lambda>_. Inl FileNotFoundError)
       (example_message\<lparr>reply_to := Some (Some \<lparr>mime_type = Some ''text/plain'', downloaded = Inl ''decode''\<rparr>)\<rparr>))
     = [Reply PlainText msg_wait, Download (history_path 5), LogError l,
        Reply Markdown msg_empty_history, Remove (history_path 5)]"
proof -
  let ?d = "\<lparr>mime_type = Some ''text/plain'', downloaded = Inl ''decode''\<rparr> :: document"
  let ?m = "example_message\<lparr>reply_to := Some (Some ?d)\<rparr>"
  have r: "reply_to ?m = Some (Some ?d)" by simp
  have mt: "mime_type ?d = Some ''text/plain''" by simp
  have dl: "downloaded ?d = Inl ''decode''" by simp
  have u: "user_id ?m = 5" by (simp add: example_message_def)
  from analisis_unreadable_download [OF r mt dl, of "\<lambda>_. Inl FileNotFoundError"]
  show ?thesis by (simp only: u)
qed

end
